theory Spec2Isabelle
  imports Main
begin

section \<open>Letter: tokenizer and recursive descent parser\<close>

text \<open>
  A shallow embedding of \<^verbatim>\<open>Tokenizer.js\<close> and of the \<^verbatim>\<open>Parser\<close> class.
  A JavaScript string is a \<open>string\<close> here, one \<open>char\<close> per code unit; the model
  covers the code units below 256. An exception is a value of \<open>error\<close>; the
  mutable fields of the two classes are records that every method takes and returns.
\<close>

subsection \<open>Character classes of the regular expressions\<close>

text \<open>\<^verbatim>\<open>\s\<close>: tab, line feed, vertical tab, form feed, carriage return, space,
  no-break space.\<close>

definition is_space :: "char \<Rightarrow> bool" where
  "is_space c = (c \<in> set [CHR 0x09, CHR 0x0A, CHR 0x0B, CHR 0x0C, CHR 0x0D, CHR 0x20, CHR 0xA0])"

text \<open>The line terminators, which \<^verbatim>\<open>.\<close> does not match.\<close>

definition is_line_terminator :: "char \<Rightarrow> bool" where
  "is_line_terminator c = (c \<in> set [CHR 0x0A, CHR 0x0D])"

text \<open>\<^verbatim>\<open>\d\<close> and \<^verbatim>\<open>\w\<close>.\<close>

definition is_digit :: "char \<Rightarrow> bool" where
  "is_digit c = (c \<in> set ''0123456789'')"

definition is_word :: "char \<Rightarrow> bool" where
  "is_word c = (c \<in> set ''ABCDEFGHIJKLMNOPQRSTUVWXYZabcdefghijklmnopqrstuvwxyz0123456789_'')"

subsection \<open>The regular expressions of the rule table\<close>

text \<open>
  Every regular expression of \<^verbatim>\<open>Spec\<close> is anchored with \<^verbatim>\<open>^\<close>, so
  \<^verbatim>\<open>regexp.exec(string)\<close> either fails (\<open>None\<close>, JavaScript's \<^verbatim>\<open>null\<close>) or
  returns the matched prefix \<^verbatim>\<open>matched[0]\<close>.
\<close>

type_synonym regexp = "string \<Rightarrow> string option"

text \<open>\<^verbatim>\<open>/^lit/\<close> for a fixed text.\<close>

definition rx_lit :: "string \<Rightarrow> regexp" where
  "rx_lit l s = (if take (length l) s = l then Some l else None)"

text \<open>\<^verbatim>\<open>/^[class]/\<close>: one character of a class.\<close>

definition rx_class :: "string \<Rightarrow> regexp" where
  "rx_class cls s = (case s of [] \<Rightarrow> None | c # cs \<Rightarrow> if c \<in> set cls then Some [c] else None)"

text \<open>\<^verbatim>\<open>/^[class]lit/\<close>: one character of a class, then a fixed text.\<close>

definition rx_class_lit :: "string \<Rightarrow> string \<Rightarrow> regexp" where
  "rx_class_lit cls l s =
     (case s of [] \<Rightarrow> None
      | c # cs \<Rightarrow> if c \<in> set cls \<and> take (length l) cs = l then Some (c # l) else None)"

text \<open>\<^verbatim>\<open>/^[class]=?/\<close>: one character of a class, then greedily an optional \<^verbatim>\<open>=\<close>.\<close>

definition rx_class_opt_eq :: "string \<Rightarrow> regexp" where
  "rx_class_opt_eq cls s =
     (case s of [] \<Rightarrow> None
      | c # cs \<Rightarrow> if c \<in> set cls
                then (case cs of [] \<Rightarrow> Some [c]
                      | d # ds \<Rightarrow> if d = CHR ''='' then Some [c, d] else Some [c])
                else None)"

text \<open>\<^verbatim>\<open>/^\s+/\<close>, \<^verbatim>\<open>/^\d+/\<close>, \<^verbatim>\<open>/^\w+/\<close>: the longest non-empty run of a class
  (nothing follows the greedy \<^verbatim>\<open>+\<close>, so there is no backtracking).\<close>

definition rx_plus :: "(char \<Rightarrow> bool) \<Rightarrow> regexp" where
  "rx_plus P s = (case takeWhile P s of [] \<Rightarrow> None | c # cs \<Rightarrow> Some (c # cs))"

text \<open>\<^verbatim>\<open>\b\<close> between the text before and the text after a position: exactly one of the
  two neighbours is a word character; a missing neighbour is not one.\<close>

definition word_boundary :: "string \<Rightarrow> string \<Rightarrow> bool" where
  "word_boundary before after =
     ((case rev before of [] \<Rightarrow> False | c # cs \<Rightarrow> is_word c)
      \<noteq> (case after of [] \<Rightarrow> False | c # cs \<Rightarrow> is_word c))"

text \<open>\<^verbatim>\<open>/^\bkw\b/\<close>: a keyword between two word boundaries.\<close>

definition rx_keyword :: "string \<Rightarrow> regexp" where
  "rx_keyword kw s =
     (if word_boundary [] s \<and> take (length kw) s = kw \<and> word_boundary kw (drop (length kw) s)
      then Some kw else None)"

text \<open>\<^verbatim>\<open>/^\/\/.*/\<close>: two slashes and the rest of the line.\<close>

definition rx_line_comment :: regexp where
  "rx_line_comment s =
     (if take 2 s = ''//''
      then Some (''//'' @ takeWhile (\<lambda>c. \<not> is_line_terminator c) (drop 2 s))
      else None)"

text \<open>\<^verbatim>\<open>[\s\S]*?\*\/\<close>: the shortest text that ends with the first \<^verbatim>\<open>*/\<close>.\<close>

fun until_close :: "string \<Rightarrow> string option" where
  "until_close (c # d # s) =
     (if c = CHR ''*'' \<and> d = CHR ''/'' then Some [c, d]
      else map_option ((#) c) (until_close (d # s)))"
| "until_close s = None"

text \<open>\<^verbatim>\<open>/^\/\*[\s\S]*?\*\//\<close>.\<close>

definition rx_block_comment :: regexp where
  "rx_block_comment s =
     (if take 2 s = ''/*'' then map_option ((@) ''/*'') (until_close (drop 2 s)) else None)"

text \<open>\<^verbatim>\<open>/^"[^"]*"/\<close> and \<^verbatim>\<open>/^'[^']*'/\<close>: a quote, the text up to the next quote of the
  same kind, and that quote.\<close>

definition rx_quoted :: "char \<Rightarrow> regexp" where
  "rx_quoted q s =
     (case s of [] \<Rightarrow> None
      | c # cs \<Rightarrow>
          if c = q
          then (case dropWhile (\<lambda>x. x \<noteq> q) cs of [] \<Rightarrow> None
                | d # ds \<Rightarrow> Some (c # takeWhile (\<lambda>x. x \<noteq> q) cs @ [d]))
          else None)"

subsection \<open>The rule table\<close>

text \<open>A rule is a regular expression and a token type; \<open>None\<close> is the \<^verbatim>\<open>null\<close> type of
  the rules whose match is skipped.\<close>

definition Spec :: "(regexp \<times> string option) list" where
  "Spec =
    [(rx_plus is_space, None),
     (rx_line_comment, None),
     (rx_block_comment, None),
     (rx_lit '';'', Some '';''),
     (rx_lit ''{'', Some ''{''),
     (rx_lit ''}'', Some ''}''),
     (rx_lit ''('', Some ''(''),
     (rx_lit '')'', Some '')''),
     (rx_lit ''['', Some ''[''),
     (rx_lit '']'', Some '']''),
     (rx_lit '','', Some '',''),
     (rx_lit ''.'', Some ''.''),
     (rx_class_opt_eq ''<>'', Some ''RELATIONAL_OPERATOR''),
     (rx_class_lit ''=!'' ''='', Some ''EQUALITY_OPERATOR''),
     (rx_lit ''&&'', Some ''LOGICAL_AND''),
     (rx_lit ''||'', Some ''LOGICAL_OR''),
     (rx_lit ''!'', Some ''LOGICAL_NOT''),
     (rx_keyword ''let'', Some ''let''),
     (rx_keyword ''if'', Some ''if''),
     (rx_keyword ''else'', Some ''else''),
     (rx_keyword ''true'', Some ''true''),
     (rx_keyword ''false'', Some ''false''),
     (rx_keyword ''null'', Some ''null''),
     (rx_keyword ''class'', Some ''class''),
     (rx_keyword ''this'', Some ''this''),
     (rx_keyword ''extends'', Some ''extends''),
     (rx_keyword ''super'', Some ''super''),
     (rx_keyword ''new'', Some ''new''),
     (rx_keyword ''while'', Some ''while''),
     (rx_keyword ''do'', Some ''do''),
     (rx_keyword ''for'', Some ''for''),
     (rx_keyword ''def'', Some ''def''),
     (rx_keyword ''return'', Some ''return''),
     (rx_lit ''='', Some ''SIMPLE_ASSIGN''),
     (rx_class_lit [CHR ''*'', CHR 0x5C, CHR ''/'', CHR ''+'', CHR ''-''] ''='', Some ''COMPLEX_ASSIGN''),
     (rx_class ''+-'', Some ''ADDITIVE_OPERATOR''),
     (rx_class ''*/'', Some ''MULTIPLICATIVE_OPERATOR''),
     (rx_plus is_digit, Some ''NUMBER''),
     (rx_quoted (CHR 0x22), Some ''STRING''),
     (rx_quoted (CHR 0x27), Some ''STRING''),
     (rx_plus is_word, Some ''IDENTIFIER'')]"

subsection \<open>The tokenizer\<close>

text \<open>The exceptions that running the code can raise: the \<^verbatim>\<open>SyntaxError\<close> that it
  throws itself, with its message; the \<^verbatim>\<open>TypeError\<close> of the runtime for a property read
  on \<^verbatim>\<open>null\<close>; the \<^verbatim>\<open>RangeError\<close> of the runtime for a call that the call stack has
  no room for (the messages of the last two are the engine's).\<close>

datatype error = is_SyntaxError: SyntaxError (message: string) | TypeError | RangeError

record token =
  tok_type :: string
  tok_value :: string

text \<open>The fields \<^verbatim>\<open>_string\<close> and \<^verbatim>\<open>_cursor\<close>.\<close>

record tokenizer =
  tk_string :: string
  tk_cursor :: nat

definition init :: "string \<Rightarrow> tokenizer" where
  "init string = \<lparr>tk_string = string, tk_cursor = 0\<rparr>"

definition isEOF :: "tokenizer \<Rightarrow> bool" where
  "isEOF t = (tk_cursor t = length (tk_string t))"

definition hasMoreTokens :: "tokenizer \<Rightarrow> bool" where
  "hasMoreTokens t = (tk_cursor t < length (tk_string t))"

text \<open>\<^verbatim>\<open>_match\<close>: the matched text, and the cursor moved past it.\<close>

definition match :: "regexp \<Rightarrow> string \<Rightarrow> tokenizer \<Rightarrow> string option \<times> tokenizer" where
  "match regexp string t =
     (case regexp string of
        None \<Rightarrow> (None, t)
      | Some matched \<Rightarrow> (Some matched, t\<lparr>tk_cursor := tk_cursor t + length matched\<rparr>))"

text \<open>The \<^verbatim>\<open>for\<close> loop of \<^verbatim>\<open>getNextToken\<close> over the rules, up to the point where it
  leaves the loop: a skipped match (the method then calls itself), a token, or the end
  of the table (the method then throws).\<close>

datatype scan = Skipped | Found token | NoRule

fun scan_rules :: "(regexp \<times> string option) list \<Rightarrow> string \<Rightarrow> tokenizer \<Rightarrow> scan \<times> tokenizer" where
  "scan_rules [] string t = (NoRule, t)"
| "scan_rules ((regexp, tokenType) # rules) string t =
     (case match regexp string t of
        (None, t') \<Rightarrow> scan_rules rules string t'
      | (Some tokenValue, t') \<Rightarrow>
          (case tokenType of
             None \<Rightarrow> (Skipped, t')
           | Some ty \<Rightarrow> (Found \<lparr>tok_type = ty, tok_value = tokenValue\<rparr>, t')))"

text \<open>A regular expression that matches only non-empty prefixes of its input.\<close>

definition prefix_rx :: "regexp \<Rightarrow> bool" where
  "prefix_rx rx = (\<forall>s m. rx s = Some m \<longrightarrow> m \<noteq> [] \<and> take (length m) s = m)"

lemma prefix_rx_lit: "l \<noteq> [] \<Longrightarrow> prefix_rx (rx_lit l)"
  by (auto simp: prefix_rx_def rx_lit_def split: if_splits)

lemma prefix_rx_class: "prefix_rx (rx_class cls)"
  by (auto simp: prefix_rx_def rx_class_def split: list.splits if_splits)

lemma prefix_rx_class_lit: "prefix_rx (rx_class_lit cls l)"
  by (auto simp: prefix_rx_def rx_class_lit_def split: list.splits if_splits)

lemma prefix_rx_class_opt_eq: "prefix_rx (rx_class_opt_eq cls)"
  by (auto simp: prefix_rx_def rx_class_opt_eq_def split: list.splits if_splits)

lemma take_takeWhile: "take (length (takeWhile P s)) s = takeWhile P s"
  by (induction s) auto

lemma prefix_rx_plus: "prefix_rx (rx_plus P)"
proof -
  have "m \<noteq> [] \<and> take (length m) s = m" if "rx_plus P s = Some m" for s m
  proof -
    from that have "takeWhile P s = m" and "m \<noteq> []"
      by (auto simp: rx_plus_def split: list.splits)
    then show ?thesis
      using take_takeWhile [of P s] by simp
  qed
  then show ?thesis
    by (simp add: prefix_rx_def)
qed

lemma prefix_rx_keyword: "kw \<noteq> [] \<Longrightarrow> prefix_rx (rx_keyword kw)"
  by (auto simp: prefix_rx_def rx_keyword_def split: if_splits)

lemma take_2_append: "take 2 s = p \<Longrightarrow> length p = 2 \<Longrightarrow> s = p @ drop 2 s"
  by (metis append_take_drop_id)

lemma prefix_rx_line_comment: "prefix_rx rx_line_comment"
proof -
  have "m \<noteq> [] \<and> take (length m) s = m" if "rx_line_comment s = Some m" for s m
  proof -
    let ?body = "takeWhile (\<lambda>c. \<not> is_line_terminator c) (drop 2 s)"
    from that have two: "take 2 s = ''//''" and m: "m = ''//'' @ ?body"
      by (auto simp: rx_line_comment_def split: if_splits)
    from two have s: "s = ''//'' @ drop 2 s"
      by (rule take_2_append) simp
    have "take (length m) s = take (length m) (''//'' @ drop 2 s)"
      using s by simp
    also have "\<dots> = ''//'' @ take (length ?body) (drop 2 s)"
      by (simp add: m)
    also have "\<dots> = m"
      by (simp add: m take_takeWhile)
    finally show ?thesis
      by (simp add: m)
  qed
  then show ?thesis
    by (simp add: prefix_rx_def)
qed

lemma until_close_prefix: "until_close s = Some m \<Longrightarrow> m \<noteq> [] \<and> take (length m) s = m"
  by (induction s arbitrary: m rule: until_close.induct) (auto split: if_splits)

lemma prefix_rx_block_comment: "prefix_rx rx_block_comment"
proof -
  have "m \<noteq> [] \<and> take (length m) s = m" if "rx_block_comment s = Some m" for s m
  proof -
    from that obtain b where two: "take 2 s = ''/*''" and b: "until_close (drop 2 s) = Some b"
      and m: "m = ''/*'' @ b"
      by (auto simp: rx_block_comment_def split: if_splits)
    from two have s: "s = ''/*'' @ drop 2 s"
      by (rule take_2_append) simp
    have "take (length m) s = take (length m) (''/*'' @ drop 2 s)"
      using s by simp
    also have "\<dots> = ''/*'' @ take (length b) (drop 2 s)"
      by (simp add: m)
    also have "\<dots> = m"
      using until_close_prefix [OF b] by (simp add: m)
    finally show ?thesis
      by (simp add: m)
  qed
  then show ?thesis
    by (simp add: prefix_rx_def)
qed

lemma take_until_delim:
  "dropWhile P cs = d # ds \<Longrightarrow> take (Suc (length (takeWhile P cs))) cs = takeWhile P cs @ [d]"
  by (induction cs) (auto split: if_splits)

lemma prefix_rx_quoted: "prefix_rx (rx_quoted q)"
  by (auto simp: prefix_rx_def rx_quoted_def take_until_delim split: list.splits if_splits)

lemma prefix_rx_Spec: "(rx, ty) \<in> set Spec \<Longrightarrow> prefix_rx rx"
  unfolding Spec_def
  by (auto simp: prefix_rx_lit prefix_rx_class prefix_rx_class_lit prefix_rx_class_opt_eq
      prefix_rx_plus prefix_rx_keyword prefix_rx_line_comment prefix_rx_block_comment
      prefix_rx_quoted)

text \<open>What the loop leaves behind: nothing moved when no rule matched; otherwise the
  cursor moved by the length of a non-empty prefix of the remaining text, which is the
  token's value when a token is built.\<close>

definition scan_ok :: "string \<Rightarrow> tokenizer \<Rightarrow> scan \<times> tokenizer \<Rightarrow> bool" where
  "scan_ok string t res =
     (case res of
        (NoRule, t') \<Rightarrow> t' = t
      | (Skipped, t') \<Rightarrow>
          (\<exists>m. m \<noteq> [] \<and> take (length m) string = m \<and> t' = t\<lparr>tk_cursor := tk_cursor t + length m\<rparr>)
      | (Found tok, t') \<Rightarrow>
          tok_value tok \<noteq> [] \<and> take (length (tok_value tok)) string = tok_value tok \<and>
          t' = t\<lparr>tk_cursor := tk_cursor t + length (tok_value tok)\<rparr>)"

lemma scan_rules_ok:
  "\<forall>rule \<in> set rules. prefix_rx (fst rule) \<Longrightarrow> scan_ok string t (scan_rules rules string t)"
proof (induction rules)
  case Nil
  show ?case by (simp add: scan_ok_def)
next
  case (Cons rule rules)
  obtain rx ty where rule: "rule = (rx, ty)"
    by (cases rule)
  have rx: "prefix_rx rx"
    using Cons.prems by (simp add: rule)
  have IH: "scan_ok string t (scan_rules rules string t)"
    using Cons by simp
  show ?case
  proof (cases "rx string")
    case None
    then show ?thesis
      using IH by (simp add: rule match_def)
  next
    case (Some m)
    with rx have "m \<noteq> []" "take (length m) string = m"
      by (auto simp: prefix_rx_def)
    with Some show ?thesis
      by (cases ty) (auto simp: rule match_def scan_ok_def)
  qed
qed

lemma scan_Spec_ok: "scan_ok string t (scan_rules Spec string t)"
  by (rule scan_rules_ok) (auto intro: prefix_rx_Spec)

lemma scan_Spec_Skipped:
  "scan_rules Spec string t = (Skipped, t') \<Longrightarrow>
     tk_string t' = tk_string t \<and> tk_cursor t < tk_cursor t'"
  using scan_Spec_ok [of string t] by (auto simp: scan_ok_def)

text \<open>\<^verbatim>\<open>getNextToken\<close>: \<open>Inr None\<close> is the \<^verbatim>\<open>null\<close> returned at the end of the input,
  \<open>Inl\<close> the exception thrown. The remaining text is not empty where the message
  reads its first character.\<close>

function getNextToken :: "tokenizer \<Rightarrow> (error + token option) \<times> tokenizer" where
  "getNextToken t =
     (if \<not> hasMoreTokens t then (Inr None, t)
      else
        let string = drop (tk_cursor t) (tk_string t) in
        (case scan_rules Spec string t of
           (Skipped, t') \<Rightarrow> getNextToken t'
         | (Found tok, t') \<Rightarrow> (Inr (Some tok), t')
         | (NoRule, t') \<Rightarrow>
             (Inl (SyntaxError (''Unexpected token: '' @ [CHR 0x22] @ take 1 string @ [CHR 0x22])), t')))"
  by pat_completeness auto
termination
proof (relation "measure (\<lambda>t. length (tk_string t) - tk_cursor t)", goal_cases)
  case 1
  show ?case by simp
next
  case (2 t string sc t')
  then have "tk_string t' = tk_string t \<and> tk_cursor t < tk_cursor t'"
    using scan_Spec_Skipped [of "drop (tk_cursor t) (tk_string t)" t t'] by simp
  with 2 show ?case
    by (simp add: hasMoreTokens_def diff_less_mono2)
qed

declare getNextToken.simps [simp del]




subsection \<open>Texts that the tokenizer skips\<close>



subsection \<open>The states of an initialised tokenizer\<close>

text \<open>The states that a tokenizer goes through once \<^verbatim>\<open>init\<close> has been called on a text:
  the state that \<^verbatim>\<open>init\<close> leaves, and the state after each call of \<^verbatim>\<open>getNextToken\<close>.\<close>

inductive reachable :: "string \<Rightarrow> tokenizer \<Rightarrow> bool" for string where
  initial: "reachable string (init string)"
| next_token: "reachable string t \<Longrightarrow> reachable string (snd (getNextToken t))"

section \<open>The parser\<close>

subsection \<open>AST nodes\<close>

text \<open>
  A node is the JavaScript object that a production returns: its properties in the order
  of the object literal, \<^verbatim>\<open>type\<close> first. Arrays are lists, \<^verbatim>\<open>null\<close> is \<open>JNull\<close>. The
  only numbers are the values of numeric literals: \<open>JNum\<close> where the double is the
  integer that the digits denote, \<open>JDouble\<close> of the digits otherwise.
\<close>

datatype js =
    JNull
  | JBool bool
  | JNum nat
  | JDouble string
  | JStr string
  | JArr "js list"
  | JObj "(string \<times> js) list"

text \<open>Reading a property of an object (\<open>None\<close>: no such property).\<close>

definition js_prop :: "string \<Rightarrow> js \<Rightarrow> js option" where
  "js_prop name v = (case v of JObj props \<Rightarrow> map_of props name | _ \<Rightarrow> None)"

subsection \<open>State and control\<close>

text \<open>The fields \<^verbatim>\<open>_string\<close>, \<^verbatim>\<open>_tokenizer\<close> and \<^verbatim>\<open>_lookahead\<close> (\<open>None\<close> is \<^verbatim>\<open>null\<close>).\<close>

record parser =
  p_string :: string
  p_tokenizer :: tokenizer
  p_lookahead :: "token option"

text \<open>
  A method takes the parser's state and either returns a value and the new state
  (\<open>Some (Inr (x, p'))\<close>) or throws (\<open>Some (Inl e)\<close>). \<open>None\<close> is no outcome of the
  program: the model bounds the depth of nested calls and gives \<open>None\<close> beyond the bound.
\<close>

type_synonym 'a parser_method = "parser \<Rightarrow> (error + 'a \<times> parser) option"

definition return :: "'a \<Rightarrow> 'a parser_method" where
  "return x p = Some (Inr (x, p))"

definition throw :: "error \<Rightarrow> 'a parser_method" where
  "throw e p = Some (Inl e)"

definition out_of_fuel :: "'a parser_method" where
  "out_of_fuel p = None"

text \<open>Sequencing: the second step runs in the state the first one left; a throw ends both.\<close>

definition bind :: "'a parser_method \<Rightarrow> ('a \<Rightarrow> 'b parser_method) \<Rightarrow> 'b parser_method" where
  "bind m f p =
     (case m p of
        None \<Rightarrow> None
      | Some (Inl e) \<Rightarrow> Some (Inl e)
      | Some (Inr (x, p')) \<Rightarrow> f x p')"

text \<open>\<^verbatim>\<open>this._lookahead\<close>.\<close>

definition lookahead :: "token option parser_method" where
  "lookahead p = Some (Inr (p_lookahead p, p))"

text \<open>\<^verbatim>\<open>this._lookahead.type\<close>: reading \<^verbatim>\<open>type\<close> of \<^verbatim>\<open>null\<close> is a \<^verbatim>\<open>TypeError\<close>.\<close>

definition lookahead_type :: "string parser_method" where
  "lookahead_type p =
     (case p_lookahead p of
        None \<Rightarrow> Some (Inl TypeError)
      | Some token \<Rightarrow> Some (Inr (tok_type token, p)))"

text \<open>A text between double quotes, as the messages have it.\<close>

definition quoted :: "string \<Rightarrow> string" where
  "quoted s = [CHR 0x22] @ s @ [CHR 0x22]"

text \<open>\<^verbatim>\<open>_eat\<close>.\<close>

definition eat :: "string \<Rightarrow> token parser_method" where
  "eat tokenType p =
     (case p_lookahead p of
        None \<Rightarrow> Some (Inl (SyntaxError (''Unexpected end of input, expected: '' @ quoted tokenType)))
      | Some token \<Rightarrow>
          if tok_type token \<noteq> tokenType
          then Some (Inl (SyntaxError
                 (''Unexpected token: '' @ quoted (tok_value token) @ '', expected: '' @ quoted tokenType)))
          else (case getNextToken (p_tokenizer p) of
                  (Inl e, t') \<Rightarrow> Some (Inl e)
                | (Inr next, t') \<Rightarrow> Some (Inr (token, p\<lparr>p_tokenizer := t', p_lookahead := next\<rparr>))))"

subsection \<open>Productions that call no other production but \<^verbatim>\<open>_eat\<close>\<close>

definition Identifier :: "js parser_method" where
  "Identifier =
     bind (eat ''IDENTIFIER'') (\<lambda>token.
     return (JObj [(''type'', JStr ''Identifier''), (''name'', JStr (tok_value token))]))"

text \<open>\<^verbatim>\<open>_checkValidAssignmentTarget\<close>; every node it is given is an object.\<close>

definition checkValidAssignmentTarget :: "js \<Rightarrow> js parser_method" where
  "checkValidAssignmentTarget node =
     (if node = JNull then throw TypeError
      else if js_prop ''type'' node = Some (JStr ''Identifier'')
           \<or> js_prop ''type'' node = Some (JStr ''MemberExpression'')
      then return node
      else throw (SyntaxError ''Invalid left-hand side in assignment expression''))"

definition isAssignmentOperator :: "string \<Rightarrow> bool" where
  "isAssignmentOperator tokenType = (tokenType = ''SIMPLE_ASSIGN'' \<or> tokenType = ''COMPLEX_ASSIGN'')"

definition AssignmentOperator :: "token parser_method" where
  "AssignmentOperator =
     bind lookahead_type (\<lambda>ty.
       if ty = ''SIMPLE_ASSIGN'' then eat ''SIMPLE_ASSIGN'' else eat ''COMPLEX_ASSIGN'')"

definition isLiteral :: "string \<Rightarrow> bool" where
  "isLiteral tokenType =
     (tokenType = ''NUMBER'' \<or> tokenType = ''STRING'' \<or> tokenType = ''true''
      \<or> tokenType = ''false'' \<or> tokenType = ''null'')"

text \<open>\<^verbatim>\<open>Number(token.value)\<close> for the digits of a \<^verbatim>\<open>NUMBER\<close> token. Up to \<open>2 ^ 53\<close> the
  decimal value of the digits is a double and is the result. Beyond, the result is the
  double that the engine rounds the decimal value to (possibly \<^verbatim>\<open>Infinity\<close>); the model
  does not compute it and keeps the digits: \<open>JDouble digits\<close>.\<close>

definition digit_value :: "char \<Rightarrow> nat" where
  "digit_value c = of_char c - 48"

definition decimal :: "string \<Rightarrow> nat" where
  "decimal digits = foldl (\<lambda>n c. 10 * n + digit_value c) 0 digits"

definition Number :: "string \<Rightarrow> js" where
  "Number digits = (if decimal digits \<le> 2 ^ 53 then JNum (decimal digits) else JDouble digits)"

definition NumericLiteral :: "js parser_method" where
  "NumericLiteral =
     bind (eat ''NUMBER'') (\<lambda>token.
     return (JObj [(''type'', JStr ''NumericLiteral''), (''value'', Number (tok_value token))]))"

text \<open>\<^verbatim>\<open>token.value.slice(1, -1)\<close>: without the first and the last character.\<close>

definition StringLiteral :: "js parser_method" where
  "StringLiteral =
     bind (eat ''STRING'') (\<lambda>token.
     return (JObj [(''type'', JStr ''StringLiteral''),
                   (''value'', JStr (take (length (tok_value token) - 2) (drop 1 (tok_value token))))]))"

definition BooleanLiteral :: "bool \<Rightarrow> js parser_method" where
  "BooleanLiteral v =
     bind (eat (if v then ''true'' else ''false'')) (\<lambda>token.
     return (JObj [(''type'', JStr ''BooleanLiteral''), (''value'', JBool v)]))"

definition NullLiteral :: "js parser_method" where
  "NullLiteral =
     bind (eat ''null'') (\<lambda>token.
     return (JObj [(''type'', JStr ''NullLiteral''), (''value'', JNull)]))"

definition Literal :: "js parser_method" where
  "Literal =
     bind lookahead_type (\<lambda>ty.
       if ty = ''NUMBER'' then NumericLiteral
       else if ty = ''STRING'' then StringLiteral
       else if ty = ''true'' then BooleanLiteral True
       else if ty = ''false'' then BooleanLiteral False
       else if ty = ''null'' then NullLiteral
       else throw (SyntaxError ''Literal: unexpected literal production.''))"

definition ThisExpression :: "js parser_method" where
  "ThisExpression =
     bind (eat ''this'') (\<lambda>token. return (JObj [(''type'', JStr ''ThisExpression'')]))"

definition Super :: "js parser_method" where
  "Super = bind (eat ''super'') (\<lambda>token. return (JObj [(''type'', JStr ''Super'')]))"

definition EmptyStatement :: "js parser_method" where
  "EmptyStatement =
     bind (eat '';'') (\<lambda>token. return (JObj [(''type'', JStr ''EmptyStatement'')]))"

definition ClassExtends :: "js parser_method" where
  "ClassExtends = bind (eat ''extends'') (\<lambda>token. Identifier)"

subsection \<open>The recursive productions\<close>

text \<open>
  The productions call one another through \<^verbatim>\<open>this\<close>. Here \<open>this\<close> is the record of the
  recursive methods; the body of each method is a definition over it, and a \<^verbatim>\<open>while\<close> or
  \<^verbatim>\<open>do\<close> loop of a method is a method of its own (\<open>_while\<close>) that takes the loop's
  variable and calls itself for the next iteration.
\<close>

record methods =
  StatementList :: "string option \<Rightarrow> js list parser_method"
  StatementList_while :: "string option \<Rightarrow> js list \<Rightarrow> js list parser_method"
  Statement :: "js parser_method"
  IfStatement :: "js parser_method"
  FunctionDeclaration :: "js parser_method"
  FormalParameterList :: "js list parser_method"
  FormalParameterList_while :: "js list \<Rightarrow> js list parser_method"
  ReturnStatement :: "js parser_method"
  ClassDeclaration :: "js parser_method"
  IterationStatement :: "js parser_method"
  WhileStatement :: "js parser_method"
  DoStatement :: "js parser_method"
  ForStatement :: "js parser_method"
  ForStatementInit :: "js parser_method"
  VariableStatementInit :: "js parser_method"
  VariableStatement :: "js parser_method"
  VariableDeclarationList :: "js list parser_method"
  VariableDeclarationList_while :: "js list \<Rightarrow> js list parser_method"
  VariableDeclaration :: "js parser_method"
  VariableInitializer :: "js parser_method"
  ExpressionStatement :: "js parser_method"
  BlockStatement :: "js parser_method"
  Expression :: "js parser_method"
  AssignmentExpression :: "js parser_method"
  LogicalORExpression :: "js parser_method"
  LogicalORExpression_while :: "js \<Rightarrow> js parser_method"
  LogicalANDExpression :: "js parser_method"
  LogicalANDExpression_while :: "js \<Rightarrow> js parser_method"
  EqualityExpression :: "js parser_method"
  EqualityExpression_while :: "js \<Rightarrow> js parser_method"
  RelationalExpression :: "js parser_method"
  RelationalExpression_while :: "js \<Rightarrow> js parser_method"
  AdditiveExpression :: "js parser_method"
  AdditiveExpression_while :: "js \<Rightarrow> js parser_method"
  MultiplicativeExpression :: "js parser_method"
  MultiplicativeExpression_while :: "js \<Rightarrow> js parser_method"
  UnaryExpression :: "js parser_method"
  LeftHandSideExpression :: "js parser_method"
  CallMemberExpression :: "js parser_method"
  CallExpression :: "js \<Rightarrow> js parser_method"
  Arguments :: "js list parser_method"
  ArgumentList :: "js list parser_method"
  ArgumentList_while :: "js list \<Rightarrow> js list parser_method"
  MemberExpression :: "js parser_method"
  MemberExpression_while :: "js \<Rightarrow> js parser_method"
  PrimaryExpression :: "js parser_method"
  NewExpression :: "js parser_method"
  ParenthesizedExpression :: "js parser_method"

definition StatementList_body :: "methods \<Rightarrow> string option \<Rightarrow> js list parser_method" where
  "StatementList_body this stopLookAhead =
     bind (Statement this) (\<lambda>statement.
     StatementList_while this stopLookAhead [statement])"

definition StatementList_while_body :: "methods \<Rightarrow> string option \<Rightarrow> js list \<Rightarrow> js list parser_method" where
  "StatementList_while_body this stopLookAhead statementList =
     bind lookahead (\<lambda>la.
       case la of
         None \<Rightarrow> return statementList
       | Some token \<Rightarrow>
           if Some (tok_type token) \<noteq> stopLookAhead
           then bind (Statement this) (\<lambda>statement.
                StatementList_while this stopLookAhead (statementList @ [statement]))
           else return statementList)"

definition Statement_body :: "methods \<Rightarrow> js parser_method" where
  "Statement_body this =
     bind lookahead_type (\<lambda>ty.
       if ty = ''{'' then BlockStatement this
       else if ty = '';'' then EmptyStatement
       else if ty = ''let'' then VariableStatement this
       else if ty = ''if'' then IfStatement this
       else if ty = ''def'' then FunctionDeclaration this
       else if ty = ''return'' then ReturnStatement this
       else if ty = ''class'' then ClassDeclaration this
       else if ty = ''while'' \<or> ty = ''do'' \<or> ty = ''for'' then IterationStatement this
       else ExpressionStatement this)"

definition IfStatement_body :: "methods \<Rightarrow> js parser_method" where
  "IfStatement_body this =
     bind (eat ''if'') (\<lambda>_.
     bind (eat ''('') (\<lambda>_.
     bind (Expression this) (\<lambda>test.
     bind (eat '')'') (\<lambda>_.
     bind (Statement this) (\<lambda>consequent.
     bind lookahead (\<lambda>la.
     bind (case la of
             None \<Rightarrow> return JNull
           | Some token \<Rightarrow>
               if tok_type token = ''else''
               then bind (eat ''else'') (\<lambda>_. Statement this)
               else return JNull) (\<lambda>alternate.
     return (JObj [(''type'', JStr ''IfStatement''), (''test'', test),
                   (''consequent'', consequent), (''alternate'', alternate)]))))))))"

definition FunctionDeclaration_body :: "methods \<Rightarrow> js parser_method" where
  "FunctionDeclaration_body this =
     bind (eat ''def'') (\<lambda>_.
     bind Identifier (\<lambda>name.
     bind (eat ''('') (\<lambda>_.
     bind lookahead_type (\<lambda>ty.
     bind (if ty \<noteq> '')'' then FormalParameterList this else return []) (\<lambda>params.
     bind (eat '')'') (\<lambda>_.
     bind (BlockStatement this) (\<lambda>body.
     return (JObj [(''type'', JStr ''FunctionDeclaration''), (''name'', name),
                   (''params'', JArr params), (''body'', body)]))))))))"

definition FormalParameterList_body :: "methods \<Rightarrow> js list parser_method" where
  "FormalParameterList_body this = FormalParameterList_while this []"

definition FormalParameterList_while_body :: "methods \<Rightarrow> js list \<Rightarrow> js list parser_method" where
  "FormalParameterList_while_body this params =
     bind Identifier (\<lambda>param.
     bind lookahead_type (\<lambda>ty.
       if ty = '',''
       then bind (eat '','') (\<lambda>_. FormalParameterList_while this (params @ [param]))
       else return (params @ [param])))"

definition ReturnStatement_body :: "methods \<Rightarrow> js parser_method" where
  "ReturnStatement_body this =
     bind (eat ''return'') (\<lambda>_.
     bind lookahead_type (\<lambda>ty.
     bind (if ty \<noteq> '';'' then Expression this else return JNull) (\<lambda>argument.
     bind (eat '';'') (\<lambda>_.
     return (JObj [(''type'', JStr ''ReturnStatement''), (''argument'', argument)])))))"

definition ClassDeclaration_body :: "methods \<Rightarrow> js parser_method" where
  "ClassDeclaration_body this =
     bind (eat ''class'') (\<lambda>_.
     bind Identifier (\<lambda>ident.
     bind lookahead_type (\<lambda>ty.
     bind (if ty = ''extends'' then ClassExtends else return JNull) (\<lambda>superClass.
     bind (BlockStatement this) (\<lambda>body.
     return (JObj [(''type'', JStr ''ClassDeclaration''), (''id'', ident),
                   (''superClass'', superClass), (''body'', body)]))))))"

definition IterationStatement_body :: "methods \<Rightarrow> js parser_method" where
  "IterationStatement_body this =
     bind lookahead_type (\<lambda>ty.
       if ty = ''while'' then WhileStatement this
       else if ty = ''do'' then DoStatement this
       else if ty = ''for'' then ForStatement this
       else return JNull)"

definition WhileStatement_body :: "methods \<Rightarrow> js parser_method" where
  "WhileStatement_body this =
     bind (eat ''while'') (\<lambda>_.
     bind (eat ''('') (\<lambda>_.
     bind (Expression this) (\<lambda>test.
     bind (eat '')'') (\<lambda>_.
     bind (Statement this) (\<lambda>body.
     return (JObj [(''type'', JStr ''WhileStatement''), (''test'', test), (''body'', body)]))))))"

definition DoStatement_body :: "methods \<Rightarrow> js parser_method" where
  "DoStatement_body this =
     bind (eat ''do'') (\<lambda>_.
     bind (Statement this) (\<lambda>body.
     bind (eat ''while'') (\<lambda>_.
     bind (eat ''('') (\<lambda>_.
     bind (Expression this) (\<lambda>test.
     bind (eat '')'') (\<lambda>_.
     bind (eat '';'') (\<lambda>_.
     return (JObj [(''type'', JStr ''DoStatement''), (''body'', body), (''test'', test)]))))))))"

definition ForStatement_body :: "methods \<Rightarrow> js parser_method" where
  "ForStatement_body this =
     bind (eat ''for'') (\<lambda>_.
     bind (eat ''('') (\<lambda>_.
     bind lookahead_type (\<lambda>ty.
     bind (if ty \<noteq> '';'' then ForStatementInit this else return JNull) (\<lambda>ini.
     bind (eat '';'') (\<lambda>_.
     bind lookahead_type (\<lambda>ty.
     bind (if ty \<noteq> '';'' then Expression this else return JNull) (\<lambda>test.
     bind (eat '';'') (\<lambda>_.
     bind lookahead_type (\<lambda>ty.
     bind (if ty \<noteq> '')'' then Expression this else return JNull) (\<lambda>update.
     bind (eat '')'') (\<lambda>_.
     bind (Statement this) (\<lambda>body.
     return (JObj [(''type'', JStr ''ForStatement''), (''init'', ini), (''test'', test),
                   (''update'', update), (''body'', body)])))))))))))))"

definition ForStatementInit_body :: "methods \<Rightarrow> js parser_method" where
  "ForStatementInit_body this =
     bind lookahead_type (\<lambda>ty.
       if ty = ''let'' then VariableStatementInit this else Expression this)"

definition VariableStatementInit_body :: "methods \<Rightarrow> js parser_method" where
  "VariableStatementInit_body this =
     bind (eat ''let'') (\<lambda>_.
     bind (VariableDeclarationList this) (\<lambda>declarations.
     return (JObj [(''type'', JStr ''VariableStatement''), (''declarations'', JArr declarations)])))"

definition VariableStatement_body :: "methods \<Rightarrow> js parser_method" where
  "VariableStatement_body this =
     bind (VariableStatementInit this) (\<lambda>variableStatement.
     bind (eat '';'') (\<lambda>_.
     return variableStatement))"

definition VariableDeclarationList_body :: "methods \<Rightarrow> js list parser_method" where
  "VariableDeclarationList_body this = VariableDeclarationList_while this []"

definition VariableDeclarationList_while_body :: "methods \<Rightarrow> js list \<Rightarrow> js list parser_method" where
  "VariableDeclarationList_while_body this declarations =
     bind (VariableDeclaration this) (\<lambda>declaration.
     bind lookahead_type (\<lambda>ty.
       if ty = '',''
       then bind (eat '','') (\<lambda>_. VariableDeclarationList_while this (declarations @ [declaration]))
       else return (declarations @ [declaration])))"

definition VariableDeclaration_body :: "methods \<Rightarrow> js parser_method" where
  "VariableDeclaration_body this =
     bind Identifier (\<lambda>ident.
     bind lookahead_type (\<lambda>ty.
     bind (if ty \<noteq> '';'' \<and> ty \<noteq> '','' then VariableInitializer this else return JNull) (\<lambda>ini.
     return (JObj [(''type'', JStr ''VariableDeclaration''), (''id'', ident), (''init'', ini)]))))"

definition VariableInitializer_body :: "methods \<Rightarrow> js parser_method" where
  "VariableInitializer_body this =
     bind (eat ''SIMPLE_ASSIGN'') (\<lambda>_. AssignmentExpression this)"

definition ExpressionStatement_body :: "methods \<Rightarrow> js parser_method" where
  "ExpressionStatement_body this =
     bind (Expression this) (\<lambda>expression.
     bind (eat '';'') (\<lambda>_.
     return (JObj [(''type'', JStr ''ExpressionStatement''), (''expression'', expression)])))"

definition BlockStatement_body :: "methods \<Rightarrow> js parser_method" where
  "BlockStatement_body this =
     bind (eat ''{'') (\<lambda>_.
     bind lookahead_type (\<lambda>ty.
     bind (if ty \<noteq> ''}'' then StatementList this (Some ''}'') else return []) (\<lambda>body.
     bind (eat ''}'') (\<lambda>_.
     return (JObj [(''type'', JStr ''BlockStatement''), (''body'', JArr body)])))))"

definition Expression_body :: "methods \<Rightarrow> js parser_method" where
  "Expression_body this = AssignmentExpression this"

text \<open>The object literal of \<^verbatim>\<open>AssignmentExpression\<close> evaluates its properties in order: the
  operator is consumed, then the target is checked, then the right side is parsed.\<close>

definition AssignmentExpression_body :: "methods \<Rightarrow> js parser_method" where
  "AssignmentExpression_body this =
     bind (LogicalORExpression this) (\<lambda>left.
     bind lookahead_type (\<lambda>ty.
       if \<not> isAssignmentOperator ty then return left
       else
         bind AssignmentOperator (\<lambda>operator.
         bind (checkValidAssignmentTarget left) (\<lambda>target.
         bind (AssignmentExpression this) (\<lambda>right.
         return (JObj [(''type'', JStr ''AssignmentExpression''), (''operator'', JStr (tok_value operator)),
                       (''left'', target), (''right'', right)]))))))"

definition LogicalORExpression_body :: "methods \<Rightarrow> js parser_method" where
  "LogicalORExpression_body this =
     bind (LogicalANDExpression this) (\<lambda>left. LogicalORExpression_while this left)"

definition LogicalORExpression_while_body :: "methods \<Rightarrow> js \<Rightarrow> js parser_method" where
  "LogicalORExpression_while_body this left =
     bind lookahead_type (\<lambda>ty.
       if ty = ''LOGICAL_OR''
       then
         bind (eat ''LOGICAL_OR'') (\<lambda>operator.
         bind (LogicalANDExpression this) (\<lambda>right.
         LogicalORExpression_while this
           (JObj [(''type'', JStr ''LogicalExpression''), (''operator'', JStr (tok_value operator)),
                  (''left'', left), (''right'', right)])))
       else return left)"

definition LogicalANDExpression_body :: "methods \<Rightarrow> js parser_method" where
  "LogicalANDExpression_body this =
     bind (EqualityExpression this) (\<lambda>left. LogicalANDExpression_while this left)"

definition LogicalANDExpression_while_body :: "methods \<Rightarrow> js \<Rightarrow> js parser_method" where
  "LogicalANDExpression_while_body this left =
     bind lookahead_type (\<lambda>ty.
       if ty = ''LOGICAL_AND''
       then
         bind (eat ''LOGICAL_AND'') (\<lambda>operator.
         bind (EqualityExpression this) (\<lambda>right.
         LogicalANDExpression_while this
           (JObj [(''type'', JStr ''LogicalExpression''), (''operator'', JStr (tok_value operator)),
                  (''left'', left), (''right'', right)])))
       else return left)"

definition EqualityExpression_body :: "methods \<Rightarrow> js parser_method" where
  "EqualityExpression_body this =
     bind (RelationalExpression this) (\<lambda>left. EqualityExpression_while this left)"

text \<open>The object literal of \<^verbatim>\<open>EqualityExpression\<close> has the properties \<^verbatim>\<open>type\<close>,
  \<^verbatim>\<open>operator\<close> and \<^verbatim>\<open>right\<close>.\<close>

definition EqualityExpression_while_body :: "methods \<Rightarrow> js \<Rightarrow> js parser_method" where
  "EqualityExpression_while_body this left =
     bind lookahead_type (\<lambda>ty.
       if ty = ''EQUALITY_OPERATOR''
       then
         bind (eat ''EQUALITY_OPERATOR'') (\<lambda>operator.
         bind (RelationalExpression this) (\<lambda>right.
         EqualityExpression_while this
           (JObj [(''type'', JStr ''BinaryExpression''), (''operator'', JStr (tok_value operator)),
                  (''right'', right)])))
       else return left)"

definition RelationalExpression_body :: "methods \<Rightarrow> js parser_method" where
  "RelationalExpression_body this =
     bind (AdditiveExpression this) (\<lambda>left. RelationalExpression_while this left)"

definition RelationalExpression_while_body :: "methods \<Rightarrow> js \<Rightarrow> js parser_method" where
  "RelationalExpression_while_body this left =
     bind lookahead_type (\<lambda>ty.
       if ty = ''RELATIONAL_OPERATOR''
       then
         bind (eat ''RELATIONAL_OPERATOR'') (\<lambda>operator.
         bind (AdditiveExpression this) (\<lambda>right.
         RelationalExpression_while this
           (JObj [(''type'', JStr ''BinaryExpression''), (''operator'', JStr (tok_value operator)),
                  (''left'', left), (''right'', right)])))
       else return left)"

definition AdditiveExpression_body :: "methods \<Rightarrow> js parser_method" where
  "AdditiveExpression_body this =
     bind (MultiplicativeExpression this) (\<lambda>left. AdditiveExpression_while this left)"

definition AdditiveExpression_while_body :: "methods \<Rightarrow> js \<Rightarrow> js parser_method" where
  "AdditiveExpression_while_body this left =
     bind lookahead_type (\<lambda>ty.
       if ty = ''ADDITIVE_OPERATOR''
       then
         bind (eat ''ADDITIVE_OPERATOR'') (\<lambda>operator.
         bind (MultiplicativeExpression this) (\<lambda>right.
         AdditiveExpression_while this
           (JObj [(''type'', JStr ''BinaryExpression''), (''operator'', JStr (tok_value operator)),
                  (''left'', left), (''right'', right)])))
       else return left)"

definition MultiplicativeExpression_body :: "methods \<Rightarrow> js parser_method" where
  "MultiplicativeExpression_body this =
     bind (UnaryExpression this) (\<lambda>left. MultiplicativeExpression_while this left)"

definition MultiplicativeExpression_while_body :: "methods \<Rightarrow> js \<Rightarrow> js parser_method" where
  "MultiplicativeExpression_while_body this left =
     bind lookahead_type (\<lambda>ty.
       if ty = ''MULTIPLICATIVE_OPERATOR''
       then
         bind (eat ''MULTIPLICATIVE_OPERATOR'') (\<lambda>operator.
         bind (UnaryExpression this) (\<lambda>right.
         MultiplicativeExpression_while this
           (JObj [(''type'', JStr ''BinaryExpression''), (''operator'', JStr (tok_value operator)),
                  (''left'', left), (''right'', right)])))
       else return left)"

text \<open>\<open>None\<close> is the \<^verbatim>\<open>operator\<close> variable left undefined by the \<^verbatim>\<open>switch\<close>.\<close>

definition UnaryExpression_body :: "methods \<Rightarrow> js parser_method" where
  "UnaryExpression_body this =
     bind lookahead_type (\<lambda>ty.
     bind (if ty = ''ADDITIVE_OPERATOR''
           then bind (eat ''ADDITIVE_OPERATOR'') (\<lambda>token. return (Some (tok_value token)))
           else if ty = ''LOGICAL_NOT''
           then bind (eat ''LOGICAL_NOT'') (\<lambda>token. return (Some (tok_value token)))
           else return None) (\<lambda>operator.
       case operator of
         Some opr \<Rightarrow>
           bind (UnaryExpression this) (\<lambda>argument.
           return (JObj [(''type'', JStr ''UnaryExpression''), (''operator'', JStr opr),
                         (''argument'', argument)]))
       | None \<Rightarrow> LeftHandSideExpression this))"

definition LeftHandSideExpression_body :: "methods \<Rightarrow> js parser_method" where
  "LeftHandSideExpression_body this = CallMemberExpression this"

definition CallMemberExpression_body :: "methods \<Rightarrow> js parser_method" where
  "CallMemberExpression_body this =
     bind lookahead_type (\<lambda>ty.
       if ty = ''super'' then bind Super (\<lambda>callee. CallExpression this callee)
       else
         bind (MemberExpression this) (\<lambda>member.
         bind lookahead_type (\<lambda>ty.
           if ty = ''('' then CallExpression this member else return member)))"

definition CallExpression_body :: "methods \<Rightarrow> js \<Rightarrow> js parser_method" where
  "CallExpression_body this callee =
     bind (Arguments this) (\<lambda>arguments.
     bind lookahead_type (\<lambda>ty.
       if ty = ''(''
       then CallExpression this
              (JObj [(''type'', JStr ''CallExpression''), (''callee'', callee), (''arguments'', JArr arguments)])
       else return
              (JObj [(''type'', JStr ''CallExpression''), (''callee'', callee), (''arguments'', JArr arguments)])))"

definition Arguments_body :: "methods \<Rightarrow> js list parser_method" where
  "Arguments_body this =
     bind (eat ''('') (\<lambda>_.
     bind lookahead_type (\<lambda>ty.
     bind (if ty \<noteq> '')'' then ArgumentList this else return []) (\<lambda>argumentList.
     bind (eat '')'') (\<lambda>_.
     return argumentList))))"

definition ArgumentList_body :: "methods \<Rightarrow> js list parser_method" where
  "ArgumentList_body this = ArgumentList_while this []"

definition ArgumentList_while_body :: "methods \<Rightarrow> js list \<Rightarrow> js list parser_method" where
  "ArgumentList_while_body this argumentList =
     bind (AssignmentExpression this) (\<lambda>argument.
     bind lookahead_type (\<lambda>ty.
       if ty = '',''
       then bind (eat '','') (\<lambda>_. ArgumentList_while this (argumentList @ [argument]))
       else return (argumentList @ [argument])))"

definition MemberExpression_body :: "methods \<Rightarrow> js parser_method" where
  "MemberExpression_body this =
     bind (PrimaryExpression this) (\<lambda>object. MemberExpression_while this object)"

definition MemberExpression_while_body :: "methods \<Rightarrow> js \<Rightarrow> js parser_method" where
  "MemberExpression_while_body this object =
     bind lookahead_type (\<lambda>ty.
       if ty = ''.'' \<or> ty = ''[''
       then
         bind lookahead_type (\<lambda>ty.
           if ty = ''.''
           then
             bind (eat ''.'') (\<lambda>_.
             bind Identifier (\<lambda>property.
             MemberExpression_while this
               (JObj [(''type'', JStr ''MemberExpression''), (''computed'', JBool False),
                      (''object'', object), (''property'', property)])))
           else
             bind (eat ''['') (\<lambda>_.
             bind (Expression this) (\<lambda>property.
             bind (eat '']'') (\<lambda>_.
             MemberExpression_while this
               (JObj [(''type'', JStr ''MemberExpression''), (''computed'', JBool True),
                      (''object'', object), (''property'', property)])))))
       else return object)"

definition PrimaryExpression_body :: "methods \<Rightarrow> js parser_method" where
  "PrimaryExpression_body this =
     bind lookahead_type (\<lambda>ty.
       if isLiteral ty then Literal
       else if ty = ''('' then ParenthesizedExpression this
       else if ty = ''IDENTIFIER'' then Identifier
       else if ty = ''this'' then ThisExpression
       else if ty = ''new'' then NewExpression this
       else throw (SyntaxError ''Unexpected primary expression.''))"

definition NewExpression_body :: "methods \<Rightarrow> js parser_method" where
  "NewExpression_body this =
     bind (eat ''new'') (\<lambda>_.
     bind (MemberExpression this) (\<lambda>callee.
     bind (Arguments this) (\<lambda>arguments.
     return (JObj [(''type'', JStr ''NewExpression''), (''callee'', callee),
                   (''arguments'', JArr arguments)]))))"

definition ParenthesizedExpression_body :: "methods \<Rightarrow> js parser_method" where
  "ParenthesizedExpression_body this =
     bind (eat ''('') (\<lambda>_.
     bind (Expression this) (\<lambda>expression.
     bind (eat '')'') (\<lambda>_.
     return expression)))"

text \<open>
  The parser whose calls nest at most \<open>n\<close> deep: every call through \<^verbatim>\<open>this\<close> goes to the
  parser of the depth below, and at depth \<open>0\<close> no call has an outcome.
\<close>

primrec Parser :: "nat \<Rightarrow> methods" where
  "Parser 0 =
     \<lparr>StatementList = \<lambda>stopLookAhead. out_of_fuel,
      StatementList_while = \<lambda>stopLookAhead statementList. out_of_fuel,
      Statement = out_of_fuel,
      IfStatement = out_of_fuel,
      FunctionDeclaration = out_of_fuel,
      FormalParameterList = out_of_fuel,
      FormalParameterList_while = \<lambda>params. out_of_fuel,
      ReturnStatement = out_of_fuel,
      ClassDeclaration = out_of_fuel,
      IterationStatement = out_of_fuel,
      WhileStatement = out_of_fuel,
      DoStatement = out_of_fuel,
      ForStatement = out_of_fuel,
      ForStatementInit = out_of_fuel,
      VariableStatementInit = out_of_fuel,
      VariableStatement = out_of_fuel,
      VariableDeclarationList = out_of_fuel,
      VariableDeclarationList_while = \<lambda>declarations. out_of_fuel,
      VariableDeclaration = out_of_fuel,
      VariableInitializer = out_of_fuel,
      ExpressionStatement = out_of_fuel,
      BlockStatement = out_of_fuel,
      Expression = out_of_fuel,
      AssignmentExpression = out_of_fuel,
      LogicalORExpression = out_of_fuel,
      LogicalORExpression_while = \<lambda>left. out_of_fuel,
      LogicalANDExpression = out_of_fuel,
      LogicalANDExpression_while = \<lambda>left. out_of_fuel,
      EqualityExpression = out_of_fuel,
      EqualityExpression_while = \<lambda>left. out_of_fuel,
      RelationalExpression = out_of_fuel,
      RelationalExpression_while = \<lambda>left. out_of_fuel,
      AdditiveExpression = out_of_fuel,
      AdditiveExpression_while = \<lambda>left. out_of_fuel,
      MultiplicativeExpression = out_of_fuel,
      MultiplicativeExpression_while = \<lambda>left. out_of_fuel,
      UnaryExpression = out_of_fuel,
      LeftHandSideExpression = out_of_fuel,
      CallMemberExpression = out_of_fuel,
      CallExpression = \<lambda>callee. out_of_fuel,
      Arguments = out_of_fuel,
      ArgumentList = out_of_fuel,
      ArgumentList_while = \<lambda>argumentList. out_of_fuel,
      MemberExpression = out_of_fuel,
      MemberExpression_while = \<lambda>object. out_of_fuel,
      PrimaryExpression = out_of_fuel,
      NewExpression = out_of_fuel,
      ParenthesizedExpression = out_of_fuel\<rparr>"
| "Parser (Suc n) =
     \<lparr>StatementList = StatementList_body (Parser n),
      StatementList_while = StatementList_while_body (Parser n),
      Statement = Statement_body (Parser n),
      IfStatement = IfStatement_body (Parser n),
      FunctionDeclaration = FunctionDeclaration_body (Parser n),
      FormalParameterList = FormalParameterList_body (Parser n),
      FormalParameterList_while = FormalParameterList_while_body (Parser n),
      ReturnStatement = ReturnStatement_body (Parser n),
      ClassDeclaration = ClassDeclaration_body (Parser n),
      IterationStatement = IterationStatement_body (Parser n),
      WhileStatement = WhileStatement_body (Parser n),
      DoStatement = DoStatement_body (Parser n),
      ForStatement = ForStatement_body (Parser n),
      ForStatementInit = ForStatementInit_body (Parser n),
      VariableStatementInit = VariableStatementInit_body (Parser n),
      VariableStatement = VariableStatement_body (Parser n),
      VariableDeclarationList = VariableDeclarationList_body (Parser n),
      VariableDeclarationList_while = VariableDeclarationList_while_body (Parser n),
      VariableDeclaration = VariableDeclaration_body (Parser n),
      VariableInitializer = VariableInitializer_body (Parser n),
      ExpressionStatement = ExpressionStatement_body (Parser n),
      BlockStatement = BlockStatement_body (Parser n),
      Expression = Expression_body (Parser n),
      AssignmentExpression = AssignmentExpression_body (Parser n),
      LogicalORExpression = LogicalORExpression_body (Parser n),
      LogicalORExpression_while = LogicalORExpression_while_body (Parser n),
      LogicalANDExpression = LogicalANDExpression_body (Parser n),
      LogicalANDExpression_while = LogicalANDExpression_while_body (Parser n),
      EqualityExpression = EqualityExpression_body (Parser n),
      EqualityExpression_while = EqualityExpression_while_body (Parser n),
      RelationalExpression = RelationalExpression_body (Parser n),
      RelationalExpression_while = RelationalExpression_while_body (Parser n),
      AdditiveExpression = AdditiveExpression_body (Parser n),
      AdditiveExpression_while = AdditiveExpression_while_body (Parser n),
      MultiplicativeExpression = MultiplicativeExpression_body (Parser n),
      MultiplicativeExpression_while = MultiplicativeExpression_while_body (Parser n),
      UnaryExpression = UnaryExpression_body (Parser n),
      LeftHandSideExpression = LeftHandSideExpression_body (Parser n),
      CallMemberExpression = CallMemberExpression_body (Parser n),
      CallExpression = CallExpression_body (Parser n),
      Arguments = Arguments_body (Parser n),
      ArgumentList = ArgumentList_body (Parser n),
      ArgumentList_while = ArgumentList_while_body (Parser n),
      MemberExpression = MemberExpression_body (Parser n),
      MemberExpression_while = MemberExpression_while_body (Parser n),
      PrimaryExpression = PrimaryExpression_body (Parser n),
      NewExpression = NewExpression_body (Parser n),
      ParenthesizedExpression = ParenthesizedExpression_body (Parser n)\<rparr>"

text \<open>\<^verbatim>\<open>Program\<close> and \<^verbatim>\<open>parse\<close>, which sets every field of the parser before it reads one.\<close>

definition Program :: "methods \<Rightarrow> js parser_method" where
  "Program this =
     bind (StatementList this None) (\<lambda>body.
     return (JObj [(''type'', JStr ''Program''), (''body'', JArr body)]))"

definition parse :: "nat \<Rightarrow> string \<Rightarrow> (error + js) option" where
  "parse n string =
     (case getNextToken (init string) of
        (Inl e, t) \<Rightarrow> Some (Inl e)
      | (Inr la, t) \<Rightarrow>
          (case Program (Parser n) \<lparr>p_string = string, p_tokenizer = t, p_lookahead = la\<rparr> of
             None \<Rightarrow> None
           | Some (Inl e) \<Rightarrow> Some (Inl e)
           | Some (Inr (ast, p)) \<Rightarrow> Some (Inr ast)))"


subsection \<open>A parser in the middle of a text\<close>

text \<open>The state of a parser on the text \<open>s\<close> whose tokenizer has the cursor at \<open>c\<close> and
  whose lookahead is \<open>la\<close>.\<close>

definition parser_at :: "string \<Rightarrow> nat \<Rightarrow> token option \<Rightarrow> parser" where
  "parser_at s c la = \<lparr>p_string = s, p_tokenizer = \<lparr>tk_string = s, tk_cursor = c\<rparr>, p_lookahead = la\<rparr>"


section \<open>Properties of the tokenizer\<close>







lemma scan_rules_NoRule:
  "\<forall>rule \<in> set rules. fst rule string = None \<Longrightarrow> scan_rules rules string t = (NoRule, t)"
  by (induction rules) (auto simp: match_def)

lemma no_rule_at: "list_all (\<lambda>rule. fst rule ''@'' = None) Spec"
  by (simp add: Spec_def rx_lit_def rx_class_def rx_class_lit_def rx_class_opt_eq_def rx_plus_def
      rx_keyword_def rx_line_comment_def rx_block_comment_def rx_quoted_def word_boundary_def
      is_space_def is_digit_def is_word_def)

lemma getNextToken_at_end: "isEOF t \<Longrightarrow> getNextToken t = (Inr None, t)"
  by (simp add: getNextToken.simps isEOF_def hasMoreTokens_def)


text \<open>
  C6. Tokenizing \<^verbatim>\<open>let\<close> gives one token, of type \<^verbatim>\<open>let\<close>, and then the end of the
  input; tokenizing \<^verbatim>\<open>letter\<close> gives one token, of type \<^verbatim>\<open>IDENTIFIER\<close> and value
  \<^verbatim>\<open>letter\<close>, and then the end of the input.
\<close>

theorem let_keyword_letter_identifier:
  "getNextToken (init ''let'') =
     (Inr (Some \<lparr>tok_type = ''let'', tok_value = ''let''\<rparr>), \<lparr>tk_string = ''let'', tk_cursor = 3\<rparr>) \<and>
   getNextToken \<lparr>tk_string = ''let'', tk_cursor = 3\<rparr> = (Inr None, \<lparr>tk_string = ''let'', tk_cursor = 3\<rparr>) \<and>
   getNextToken (init ''letter'') =
     (Inr (Some \<lparr>tok_type = ''IDENTIFIER'', tok_value = ''letter''\<rparr>), \<lparr>tk_string = ''letter'', tk_cursor = 6\<rparr>) \<and>
   getNextToken \<lparr>tk_string = ''letter'', tk_cursor = 6\<rparr> = (Inr None, \<lparr>tk_string = ''letter'', tk_cursor = 6\<rparr>)"
  by code_simp











text \<open>
  C8, as the code has it. Where the text at the cursor matches no rule of the table,
  \<^verbatim>\<open>getNextToken\<close> throws a \<^verbatim>\<open>SyntaxError\<close> whose message quotes the first character
  of that text, and the tokenizer is left as it was.
\<close>

theorem no_rule_throws_SyntaxError:
  assumes "hasMoreTokens t"
    and "list_all (\<lambda>rule. fst rule (drop (tk_cursor t) (tk_string t)) = None) Spec"
  shows "getNextToken t =
    (Inl (SyntaxError (''Unexpected token: '' @ [CHR 0x22, tk_string t ! tk_cursor t, CHR 0x22])), t)"
proof -
  have "take 1 (drop (tk_cursor t) (tk_string t)) = [tk_string t ! tk_cursor t]"
    using assms(1) by (simp add: hasMoreTokens_def take_Suc_conv_app_nth [of 0] hd_drop_conv_nth take_Suc)
  then show ?thesis
    using assms scan_rules_NoRule [of Spec "drop (tk_cursor t) (tk_string t)" t]
    by (subst getNextToken.simps) (simp add: list_all_iff)
qed


theorem no_rule_throws_SyntaxError_witness:
  "hasMoreTokens (init ''@'') \<and>
   list_all (\<lambda>rule. fst rule (drop (tk_cursor (init ''@'')) (tk_string (init ''@''))) = None) Spec \<and>
   getNextToken (init ''@'') = (Inl (SyntaxError ''Unexpected token: \"@\"''), init ''@'')"
proof -
  have more: "hasMoreTokens (init ''@'')"
    by (simp add: hasMoreTokens_def init_def)
  have none: "list_all (\<lambda>rule. fst rule (drop (tk_cursor (init ''@'')) (tk_string (init ''@''))) = None) Spec"
    using no_rule_at by (simp add: init_def)
  show ?thesis
    using more none no_rule_throws_SyntaxError [OF more none] by (simp add: init_def)
qed


text \<open>
  The error of the tokenizer is a \<^verbatim>\<open>SyntaxError\<close>, the error class that \<^verbatim>\<open>_eat\<close> of
  the parser throws, and it is the same value wherever the cursor stands: the position
  is not part of it.
\<close>

theorem no_rule_error_counterexample:
  "fst (getNextToken \<lparr>tk_string = ''@'', tk_cursor = 0\<rparr>) = Inl (SyntaxError ''Unexpected token: \"@\"'') \<and>
   fst (getNextToken \<lparr>tk_string = ''a @'', tk_cursor = 2\<rparr>) = Inl (SyntaxError ''Unexpected token: \"@\"'') \<and>
   eat '';'' \<lparr>p_string = ''a'', p_tokenizer = \<lparr>tk_string = ''a'', tk_cursor = 1\<rparr>, p_lookahead = None\<rparr> =
     Some (Inl (SyntaxError ''Unexpected end of input, expected: \";\"''))"
proof -
  have "fst (getNextToken \<lparr>tk_string = ''@'', tk_cursor = 0\<rparr>) = Inl (SyntaxError ''Unexpected token: \"@\"'')"
    by code_simp
  moreover have "fst (getNextToken \<lparr>tk_string = ''a @'', tk_cursor = 2\<rparr>) = Inl (SyntaxError ''Unexpected token: \"@\"'')"
    by code_simp
  moreover have "eat '';'' \<lparr>p_string = ''a'', p_tokenizer = \<lparr>tk_string = ''a'', tk_cursor = 1\<rparr>, p_lookahead = None\<rparr> =
     Some (Inl (SyntaxError ''Unexpected end of input, expected: \";\"''))"
    by (simp add: eat_def quoted_def)
  ultimately show ?thesis
    by simp
qed


lemma getNextToken_cursor:
  assumes "tk_cursor t \<le> length (tk_string t)" and "getNextToken t = (r, t')"
  shows "tk_string t' = tk_string t \<and> tk_cursor t \<le> tk_cursor t' \<and>
         tk_cursor t' \<le> length (tk_string t') \<and>
         (\<forall>tok. r = Inr (Some tok) \<longrightarrow>
            tk_cursor t + length (tok_value tok) \<le> tk_cursor t' \<and>
            tok_value tok =
              take (length (tok_value tok)) (drop (tk_cursor t' - length (tok_value tok)) (tk_string t')))"
  using assms
proof (induction t rule: getNextToken.induct)
  case (1 t)
  show ?case
  proof (cases "hasMoreTokens t")
    case False
    with "1.prems" show ?thesis
      by (auto simp: getNextToken.simps)
  next
    case True
    let ?s = "drop (tk_cursor t) (tk_string t)"
    obtain sc t1 where scan: "scan_rules Spec ?s t = (sc, t1)"
      by (cases "scan_rules Spec ?s t")
    have ok: "scan_ok ?s t (sc, t1)"
      using scan_Spec_ok [of ?s t] scan by simp
    have prefix_len: "length m \<le> length (tk_string t) - tk_cursor t" if "take (length m) ?s = m" for m
    proof -
      have "length m = length (take (length m) ?s)" using that by simp
      then show ?thesis by simp
    qed
    show ?thesis
    proof (cases sc)
      case NoRule
      with ok scan True "1.prems" show ?thesis
        by (auto simp: getNextToken.simps [of t] scan_ok_def)
    next
      case (Found tok)
      with ok have v: "tok_value tok \<noteq> []" "take (length (tok_value tok)) ?s = tok_value tok"
        and t1: "t1 = t\<lparr>tk_cursor := tk_cursor t + length (tok_value tok)\<rparr>"
        by (simp_all add: scan_ok_def)
      from Found scan True "1.prems" have res: "r = Inr (Some tok)" "t' = t1"
        by (simp_all add: getNextToken.simps [of t])
      have "tok_value tok = take (length (tok_value tok)) (drop (tk_cursor t) (tk_string t))"
        using v(2) by simp
      with prefix_len [OF v(2)] True show ?thesis
        by (simp add: res t1 hasMoreTokens_def)
    next
      case Skipped
      with ok obtain m where m: "m \<noteq> []" "take (length m) ?s = m"
        and t1: "t1 = t\<lparr>tk_cursor := tk_cursor t + length m\<rparr>"
        by (auto simp: scan_ok_def)
      from Skipped scan True "1.prems" have rec: "getNextToken t1 = (r, t')"
        by (simp add: getNextToken.simps [of t])
      have inv: "tk_cursor t1 \<le> length (tk_string t1)"
        using prefix_len [OF m(2)] True by (simp add: t1 hasMoreTokens_def)
      have "tk_string t' = tk_string t1 \<and> tk_cursor t1 \<le> tk_cursor t' \<and>
         tk_cursor t' \<le> length (tk_string t') \<and>
         (\<forall>tok. r = Inr (Some tok) \<longrightarrow>
            tk_cursor t1 + length (tok_value tok) \<le> tk_cursor t' \<and>
            tok_value tok =
              take (length (tok_value tok)) (drop (tk_cursor t' - length (tok_value tok)) (tk_string t')))"
        using True scan Skipped inv rec
        by (intro "1.IH" [of ?s sc t1]) simp_all
      then show ?thesis
        by (auto simp: t1)
    qed
  qed
qed



lemma reachable_cursor: "reachable string t \<Longrightarrow> tk_string t = string \<and> tk_cursor t \<le> length string"
proof (induction rule: reachable.induct)
  case initial
  show ?case by (simp add: init_def)
next
  case (next_token t)
  obtain r t' where run: "getNextToken t = (r, t')"
    by (cases "getNextToken t")
  from next_token.IH have "tk_cursor t \<le> length (tk_string t)"
    by simp
  from getNextToken_cursor [OF this run] next_token.IH run show ?case
    by auto
qed

text \<open>
  C9. At every call of \<^verbatim>\<open>getNextToken\<close> on an initialised tokenizer, the text stays the
  same, the cursor never moves back and never moves beyond the end of the text; when the
  call returns a token, the cursor has moved by at least the length of the token's value
  (by more when a prefix was skipped), and that value is the part of the text that ends
  at the new cursor.
\<close>

theorem cursor_invariant:
  assumes "reachable string t" and "getNextToken t = (r, t')"
  shows "tk_string t' = string \<and> tk_cursor t \<le> tk_cursor t' \<and> tk_cursor t' \<le> length string \<and>
         (\<forall>tok. r = Inr (Some tok) \<longrightarrow>
            tk_cursor t + length (tok_value tok) \<le> tk_cursor t' \<and>
            tok_value tok =
              take (length (tok_value tok)) (drop (tk_cursor t' - length (tok_value tok)) string))"
proof -
  from reachable_cursor [OF assms(1)] have t: "tk_string t = string" "tk_cursor t \<le> length (tk_string t)"
    by simp_all
  from getNextToken_cursor [OF t(2) assms(2)] t(1) show ?thesis
    by auto
qed

theorem cursor_invariant_witness:
  "reachable '' ab'' (init '' ab'') \<and>
   getNextToken (init '' ab'') =
     (Inr (Some \<lparr>tok_type = ''IDENTIFIER'', tok_value = ''ab''\<rparr>), \<lparr>tk_string = '' ab'', tk_cursor = 3\<rparr>) \<and>
   tk_cursor (init '' ab'') + length ''ab'' \<le> 3 \<and>
   ''ab'' = take 2 (drop (3 - 2) '' ab'')"
proof -
  have start: "reachable '' ab'' (init '' ab'')"
    by (rule reachable.initial)
  have run: "getNextToken (init '' ab'') =
     (Inr (Some \<lparr>tok_type = ''IDENTIFIER'', tok_value = ''ab''\<rparr>), \<lparr>tk_string = '' ab'', tk_cursor = 3\<rparr>)"
    by code_simp
  show ?thesis
    using start run cursor_invariant [OF start run] by simp
qed


text \<open>
  C10. Once the cursor is at the end of the text, \<^verbatim>\<open>getNextToken\<close> returns \<^verbatim>\<open>null\<close>,
  throws nothing and leaves the tokenizer unchanged, however many times it is called.
\<close>

theorem exhausted_idempotent: "isEOF t \<Longrightarrow> getNextToken (((snd \<circ> getNextToken) ^^ n) t) = (Inr None, t)"
proof (induction n)
  case 0
  then show ?case by (simp add: getNextToken_at_end)
next
  case (Suc n)
  then show ?case by (simp add: getNextToken_at_end)
qed


theorem exhausted_idempotent_witness:
  "isEOF \<lparr>tk_string = ''a;'', tk_cursor = 2\<rparr> \<and>
   getNextToken (snd (getNextToken (snd (getNextToken \<lparr>tk_string = ''a;'', tk_cursor = 2\<rparr>)))) =
     (Inr None, \<lparr>tk_string = ''a;'', tk_cursor = 2\<rparr>)"
proof -
  have e: "isEOF \<lparr>tk_string = ''a;'', tk_cursor = 2\<rparr>"
    by (simp add: isEOF_def)
  show ?thesis
    using e exhausted_idempotent [OF e, of 2] by (simp add: numeral_2_eq_2)
qed

section \<open>Properties of the parser\<close>

subsection \<open>The methods of a parser of a given depth\<close>

text \<open>A method of the parser of depth \<open>Suc n\<close> is the body of that method over the parser
  of depth \<open>n\<close>; at depth \<open>0\<close> no method has an outcome.\<close>

lemma Parser_Suc:
  "StatementList (Parser (Suc n)) = StatementList_body (Parser n)"
  "StatementList_while (Parser (Suc n)) = StatementList_while_body (Parser n)"
  "Statement (Parser (Suc n)) = Statement_body (Parser n)"
  "IfStatement (Parser (Suc n)) = IfStatement_body (Parser n)"
  "FunctionDeclaration (Parser (Suc n)) = FunctionDeclaration_body (Parser n)"
  "FormalParameterList (Parser (Suc n)) = FormalParameterList_body (Parser n)"
  "FormalParameterList_while (Parser (Suc n)) = FormalParameterList_while_body (Parser n)"
  "ReturnStatement (Parser (Suc n)) = ReturnStatement_body (Parser n)"
  "ClassDeclaration (Parser (Suc n)) = ClassDeclaration_body (Parser n)"
  "IterationStatement (Parser (Suc n)) = IterationStatement_body (Parser n)"
  "WhileStatement (Parser (Suc n)) = WhileStatement_body (Parser n)"
  "DoStatement (Parser (Suc n)) = DoStatement_body (Parser n)"
  "ForStatement (Parser (Suc n)) = ForStatement_body (Parser n)"
  "ForStatementInit (Parser (Suc n)) = ForStatementInit_body (Parser n)"
  "VariableStatementInit (Parser (Suc n)) = VariableStatementInit_body (Parser n)"
  "VariableStatement (Parser (Suc n)) = VariableStatement_body (Parser n)"
  "VariableDeclarationList (Parser (Suc n)) = VariableDeclarationList_body (Parser n)"
  "VariableDeclarationList_while (Parser (Suc n)) = VariableDeclarationList_while_body (Parser n)"
  "VariableDeclaration (Parser (Suc n)) = VariableDeclaration_body (Parser n)"
  "VariableInitializer (Parser (Suc n)) = VariableInitializer_body (Parser n)"
  "ExpressionStatement (Parser (Suc n)) = ExpressionStatement_body (Parser n)"
  "BlockStatement (Parser (Suc n)) = BlockStatement_body (Parser n)"
  "Expression (Parser (Suc n)) = Expression_body (Parser n)"
  "AssignmentExpression (Parser (Suc n)) = AssignmentExpression_body (Parser n)"
  "LogicalORExpression (Parser (Suc n)) = LogicalORExpression_body (Parser n)"
  "LogicalORExpression_while (Parser (Suc n)) = LogicalORExpression_while_body (Parser n)"
  "LogicalANDExpression (Parser (Suc n)) = LogicalANDExpression_body (Parser n)"
  "LogicalANDExpression_while (Parser (Suc n)) = LogicalANDExpression_while_body (Parser n)"
  "EqualityExpression (Parser (Suc n)) = EqualityExpression_body (Parser n)"
  "EqualityExpression_while (Parser (Suc n)) = EqualityExpression_while_body (Parser n)"
  "RelationalExpression (Parser (Suc n)) = RelationalExpression_body (Parser n)"
  "RelationalExpression_while (Parser (Suc n)) = RelationalExpression_while_body (Parser n)"
  "AdditiveExpression (Parser (Suc n)) = AdditiveExpression_body (Parser n)"
  "AdditiveExpression_while (Parser (Suc n)) = AdditiveExpression_while_body (Parser n)"
  "MultiplicativeExpression (Parser (Suc n)) = MultiplicativeExpression_body (Parser n)"
  "MultiplicativeExpression_while (Parser (Suc n)) = MultiplicativeExpression_while_body (Parser n)"
  "UnaryExpression (Parser (Suc n)) = UnaryExpression_body (Parser n)"
  "LeftHandSideExpression (Parser (Suc n)) = LeftHandSideExpression_body (Parser n)"
  "CallMemberExpression (Parser (Suc n)) = CallMemberExpression_body (Parser n)"
  "CallExpression (Parser (Suc n)) = CallExpression_body (Parser n)"
  "Arguments (Parser (Suc n)) = Arguments_body (Parser n)"
  "ArgumentList (Parser (Suc n)) = ArgumentList_body (Parser n)"
  "ArgumentList_while (Parser (Suc n)) = ArgumentList_while_body (Parser n)"
  "MemberExpression (Parser (Suc n)) = MemberExpression_body (Parser n)"
  "MemberExpression_while (Parser (Suc n)) = MemberExpression_while_body (Parser n)"
  "PrimaryExpression (Parser (Suc n)) = PrimaryExpression_body (Parser n)"
  "NewExpression (Parser (Suc n)) = NewExpression_body (Parser n)"
  "ParenthesizedExpression (Parser (Suc n)) = ParenthesizedExpression_body (Parser n)"
  by simp_all

lemma Parser_0:
  "StatementList (Parser 0) = (\<lambda>stopLookAhead. out_of_fuel)"
  "StatementList_while (Parser 0) = (\<lambda>stopLookAhead statementList. out_of_fuel)"
  "Statement (Parser 0) = out_of_fuel"
  "IfStatement (Parser 0) = out_of_fuel"
  "FunctionDeclaration (Parser 0) = out_of_fuel"
  "FormalParameterList (Parser 0) = out_of_fuel"
  "FormalParameterList_while (Parser 0) = (\<lambda>params. out_of_fuel)"
  "ReturnStatement (Parser 0) = out_of_fuel"
  "ClassDeclaration (Parser 0) = out_of_fuel"
  "IterationStatement (Parser 0) = out_of_fuel"
  "WhileStatement (Parser 0) = out_of_fuel"
  "DoStatement (Parser 0) = out_of_fuel"
  "ForStatement (Parser 0) = out_of_fuel"
  "ForStatementInit (Parser 0) = out_of_fuel"
  "VariableStatementInit (Parser 0) = out_of_fuel"
  "VariableStatement (Parser 0) = out_of_fuel"
  "VariableDeclarationList (Parser 0) = out_of_fuel"
  "VariableDeclarationList_while (Parser 0) = (\<lambda>declarations. out_of_fuel)"
  "VariableDeclaration (Parser 0) = out_of_fuel"
  "VariableInitializer (Parser 0) = out_of_fuel"
  "ExpressionStatement (Parser 0) = out_of_fuel"
  "BlockStatement (Parser 0) = out_of_fuel"
  "Expression (Parser 0) = out_of_fuel"
  "AssignmentExpression (Parser 0) = out_of_fuel"
  "LogicalORExpression (Parser 0) = out_of_fuel"
  "LogicalORExpression_while (Parser 0) = (\<lambda>left. out_of_fuel)"
  "LogicalANDExpression (Parser 0) = out_of_fuel"
  "LogicalANDExpression_while (Parser 0) = (\<lambda>left. out_of_fuel)"
  "EqualityExpression (Parser 0) = out_of_fuel"
  "EqualityExpression_while (Parser 0) = (\<lambda>left. out_of_fuel)"
  "RelationalExpression (Parser 0) = out_of_fuel"
  "RelationalExpression_while (Parser 0) = (\<lambda>left. out_of_fuel)"
  "AdditiveExpression (Parser 0) = out_of_fuel"
  "AdditiveExpression_while (Parser 0) = (\<lambda>left. out_of_fuel)"
  "MultiplicativeExpression (Parser 0) = out_of_fuel"
  "MultiplicativeExpression_while (Parser 0) = (\<lambda>left. out_of_fuel)"
  "UnaryExpression (Parser 0) = out_of_fuel"
  "LeftHandSideExpression (Parser 0) = out_of_fuel"
  "CallMemberExpression (Parser 0) = out_of_fuel"
  "CallExpression (Parser 0) = (\<lambda>callee. out_of_fuel)"
  "Arguments (Parser 0) = out_of_fuel"
  "ArgumentList (Parser 0) = out_of_fuel"
  "ArgumentList_while (Parser 0) = (\<lambda>argumentList. out_of_fuel)"
  "MemberExpression (Parser 0) = out_of_fuel"
  "MemberExpression_while (Parser 0) = (\<lambda>object. out_of_fuel)"
  "PrimaryExpression (Parser 0) = out_of_fuel"
  "NewExpression (Parser 0) = out_of_fuel"
  "ParenthesizedExpression (Parser 0) = out_of_fuel"
  by simp_all

declare Parser.simps [simp del]

lemma Parser_numeral:
  "StatementList (Parser (numeral k)) = StatementList_body (Parser (pred_numeral k))"
  "StatementList_while (Parser (numeral k)) = StatementList_while_body (Parser (pred_numeral k))"
  "Statement (Parser (numeral k)) = Statement_body (Parser (pred_numeral k))"
  "IfStatement (Parser (numeral k)) = IfStatement_body (Parser (pred_numeral k))"
  "FunctionDeclaration (Parser (numeral k)) = FunctionDeclaration_body (Parser (pred_numeral k))"
  "FormalParameterList (Parser (numeral k)) = FormalParameterList_body (Parser (pred_numeral k))"
  "FormalParameterList_while (Parser (numeral k)) = FormalParameterList_while_body (Parser (pred_numeral k))"
  "ReturnStatement (Parser (numeral k)) = ReturnStatement_body (Parser (pred_numeral k))"
  "ClassDeclaration (Parser (numeral k)) = ClassDeclaration_body (Parser (pred_numeral k))"
  "IterationStatement (Parser (numeral k)) = IterationStatement_body (Parser (pred_numeral k))"
  "WhileStatement (Parser (numeral k)) = WhileStatement_body (Parser (pred_numeral k))"
  "DoStatement (Parser (numeral k)) = DoStatement_body (Parser (pred_numeral k))"
  "ForStatement (Parser (numeral k)) = ForStatement_body (Parser (pred_numeral k))"
  "ForStatementInit (Parser (numeral k)) = ForStatementInit_body (Parser (pred_numeral k))"
  "VariableStatementInit (Parser (numeral k)) = VariableStatementInit_body (Parser (pred_numeral k))"
  "VariableStatement (Parser (numeral k)) = VariableStatement_body (Parser (pred_numeral k))"
  "VariableDeclarationList (Parser (numeral k)) = VariableDeclarationList_body (Parser (pred_numeral k))"
  "VariableDeclarationList_while (Parser (numeral k)) = VariableDeclarationList_while_body (Parser (pred_numeral k))"
  "VariableDeclaration (Parser (numeral k)) = VariableDeclaration_body (Parser (pred_numeral k))"
  "VariableInitializer (Parser (numeral k)) = VariableInitializer_body (Parser (pred_numeral k))"
  "ExpressionStatement (Parser (numeral k)) = ExpressionStatement_body (Parser (pred_numeral k))"
  "BlockStatement (Parser (numeral k)) = BlockStatement_body (Parser (pred_numeral k))"
  "Expression (Parser (numeral k)) = Expression_body (Parser (pred_numeral k))"
  "AssignmentExpression (Parser (numeral k)) = AssignmentExpression_body (Parser (pred_numeral k))"
  "LogicalORExpression (Parser (numeral k)) = LogicalORExpression_body (Parser (pred_numeral k))"
  "LogicalORExpression_while (Parser (numeral k)) = LogicalORExpression_while_body (Parser (pred_numeral k))"
  "LogicalANDExpression (Parser (numeral k)) = LogicalANDExpression_body (Parser (pred_numeral k))"
  "LogicalANDExpression_while (Parser (numeral k)) = LogicalANDExpression_while_body (Parser (pred_numeral k))"
  "EqualityExpression (Parser (numeral k)) = EqualityExpression_body (Parser (pred_numeral k))"
  "EqualityExpression_while (Parser (numeral k)) = EqualityExpression_while_body (Parser (pred_numeral k))"
  "RelationalExpression (Parser (numeral k)) = RelationalExpression_body (Parser (pred_numeral k))"
  "RelationalExpression_while (Parser (numeral k)) = RelationalExpression_while_body (Parser (pred_numeral k))"
  "AdditiveExpression (Parser (numeral k)) = AdditiveExpression_body (Parser (pred_numeral k))"
  "AdditiveExpression_while (Parser (numeral k)) = AdditiveExpression_while_body (Parser (pred_numeral k))"
  "MultiplicativeExpression (Parser (numeral k)) = MultiplicativeExpression_body (Parser (pred_numeral k))"
  "MultiplicativeExpression_while (Parser (numeral k)) = MultiplicativeExpression_while_body (Parser (pred_numeral k))"
  "UnaryExpression (Parser (numeral k)) = UnaryExpression_body (Parser (pred_numeral k))"
  "LeftHandSideExpression (Parser (numeral k)) = LeftHandSideExpression_body (Parser (pred_numeral k))"
  "CallMemberExpression (Parser (numeral k)) = CallMemberExpression_body (Parser (pred_numeral k))"
  "CallExpression (Parser (numeral k)) = CallExpression_body (Parser (pred_numeral k))"
  "Arguments (Parser (numeral k)) = Arguments_body (Parser (pred_numeral k))"
  "ArgumentList (Parser (numeral k)) = ArgumentList_body (Parser (pred_numeral k))"
  "ArgumentList_while (Parser (numeral k)) = ArgumentList_while_body (Parser (pred_numeral k))"
  "MemberExpression (Parser (numeral k)) = MemberExpression_body (Parser (pred_numeral k))"
  "MemberExpression_while (Parser (numeral k)) = MemberExpression_while_body (Parser (pred_numeral k))"
  "PrimaryExpression (Parser (numeral k)) = PrimaryExpression_body (Parser (pred_numeral k))"
  "NewExpression (Parser (numeral k)) = NewExpression_body (Parser (pred_numeral k))"
  "ParenthesizedExpression (Parser (numeral k)) = ParenthesizedExpression_body (Parser (pred_numeral k))"
  unfolding numeral_eq_Suc Parser_Suc by (rule refl)+

text \<open>The bodies as equations on a state: in this form a body unfolds only where it is
  run, not inside the steps that follow.\<close>

lemmas body_simps =
  StatementList_body_def [THEN fun_cong]
  StatementList_while_body_def [THEN fun_cong]
  Statement_body_def [THEN fun_cong]
  IfStatement_body_def [THEN fun_cong]
  FunctionDeclaration_body_def [THEN fun_cong]
  FormalParameterList_body_def [THEN fun_cong]
  FormalParameterList_while_body_def [THEN fun_cong]
  ReturnStatement_body_def [THEN fun_cong]
  ClassDeclaration_body_def [THEN fun_cong]
  IterationStatement_body_def [THEN fun_cong]
  WhileStatement_body_def [THEN fun_cong]
  DoStatement_body_def [THEN fun_cong]
  ForStatement_body_def [THEN fun_cong]
  ForStatementInit_body_def [THEN fun_cong]
  VariableStatementInit_body_def [THEN fun_cong]
  VariableStatement_body_def [THEN fun_cong]
  VariableDeclarationList_body_def [THEN fun_cong]
  VariableDeclarationList_while_body_def [THEN fun_cong]
  VariableDeclaration_body_def [THEN fun_cong]
  VariableInitializer_body_def [THEN fun_cong]
  ExpressionStatement_body_def [THEN fun_cong]
  BlockStatement_body_def [THEN fun_cong]
  Expression_body_def [THEN fun_cong]
  AssignmentExpression_body_def [THEN fun_cong]
  LogicalORExpression_body_def [THEN fun_cong]
  LogicalORExpression_while_body_def [THEN fun_cong]
  LogicalANDExpression_body_def [THEN fun_cong]
  LogicalANDExpression_while_body_def [THEN fun_cong]
  EqualityExpression_body_def [THEN fun_cong]
  EqualityExpression_while_body_def [THEN fun_cong]
  RelationalExpression_body_def [THEN fun_cong]
  RelationalExpression_while_body_def [THEN fun_cong]
  AdditiveExpression_body_def [THEN fun_cong]
  AdditiveExpression_while_body_def [THEN fun_cong]
  MultiplicativeExpression_body_def [THEN fun_cong]
  MultiplicativeExpression_while_body_def [THEN fun_cong]
  UnaryExpression_body_def [THEN fun_cong]
  LeftHandSideExpression_body_def [THEN fun_cong]
  CallMemberExpression_body_def [THEN fun_cong]
  CallExpression_body_def [THEN fun_cong]
  Arguments_body_def [THEN fun_cong]
  ArgumentList_body_def [THEN fun_cong]
  ArgumentList_while_body_def [THEN fun_cong]
  MemberExpression_body_def [THEN fun_cong]
  MemberExpression_while_body_def [THEN fun_cong]
  PrimaryExpression_body_def [THEN fun_cong]
  NewExpression_body_def [THEN fun_cong]
  ParenthesizedExpression_body_def [THEN fun_cong]

lemmas helper_simps =
  Identifier_def [THEN fun_cong]
  AssignmentOperator_def [THEN fun_cong]
  NumericLiteral_def [THEN fun_cong]
  StringLiteral_def [THEN fun_cong]
  NullLiteral_def [THEN fun_cong]
  Literal_def [THEN fun_cong]
  ThisExpression_def [THEN fun_cong]
  Super_def [THEN fun_cong]
  EmptyStatement_def [THEN fun_cong]
  ClassExtends_def [THEN fun_cong]
  Program_def [THEN fun_cong]
  BooleanLiteral_def [THEN fun_cong]

subsection \<open>The depth bound does not change an outcome\<close>

text \<open>A method agrees with another when every outcome of the first is the outcome of the
  second: the second may only have an outcome where the first has none.\<close>

definition le_method :: "'a parser_method \<Rightarrow> 'a parser_method \<Rightarrow> bool" where
  "le_method m m' = (\<forall>p r. m p = Some r \<longrightarrow> m' p = Some r)"

definition le_methods :: "methods \<Rightarrow> methods \<Rightarrow> bool" where
  "le_methods this this' =
     ((\<forall>a. le_method (StatementList this a) (StatementList this' a)) \<and>
      (\<forall>a b. le_method (StatementList_while this a b) (StatementList_while this' a b)) \<and>
      le_method (Statement this) (Statement this') \<and>
      le_method (IfStatement this) (IfStatement this') \<and>
      le_method (FunctionDeclaration this) (FunctionDeclaration this') \<and>
      le_method (FormalParameterList this) (FormalParameterList this') \<and>
      (\<forall>a. le_method (FormalParameterList_while this a) (FormalParameterList_while this' a)) \<and>
      le_method (ReturnStatement this) (ReturnStatement this') \<and>
      le_method (ClassDeclaration this) (ClassDeclaration this') \<and>
      le_method (IterationStatement this) (IterationStatement this') \<and>
      le_method (WhileStatement this) (WhileStatement this') \<and>
      le_method (DoStatement this) (DoStatement this') \<and>
      le_method (ForStatement this) (ForStatement this') \<and>
      le_method (ForStatementInit this) (ForStatementInit this') \<and>
      le_method (VariableStatementInit this) (VariableStatementInit this') \<and>
      le_method (VariableStatement this) (VariableStatement this') \<and>
      le_method (VariableDeclarationList this) (VariableDeclarationList this') \<and>
      (\<forall>a. le_method (VariableDeclarationList_while this a) (VariableDeclarationList_while this' a)) \<and>
      le_method (VariableDeclaration this) (VariableDeclaration this') \<and>
      le_method (VariableInitializer this) (VariableInitializer this') \<and>
      le_method (ExpressionStatement this) (ExpressionStatement this') \<and>
      le_method (BlockStatement this) (BlockStatement this') \<and>
      le_method (Expression this) (Expression this') \<and>
      le_method (AssignmentExpression this) (AssignmentExpression this') \<and>
      le_method (LogicalORExpression this) (LogicalORExpression this') \<and>
      (\<forall>a. le_method (LogicalORExpression_while this a) (LogicalORExpression_while this' a)) \<and>
      le_method (LogicalANDExpression this) (LogicalANDExpression this') \<and>
      (\<forall>a. le_method (LogicalANDExpression_while this a) (LogicalANDExpression_while this' a)) \<and>
      le_method (EqualityExpression this) (EqualityExpression this') \<and>
      (\<forall>a. le_method (EqualityExpression_while this a) (EqualityExpression_while this' a)) \<and>
      le_method (RelationalExpression this) (RelationalExpression this') \<and>
      (\<forall>a. le_method (RelationalExpression_while this a) (RelationalExpression_while this' a)) \<and>
      le_method (AdditiveExpression this) (AdditiveExpression this') \<and>
      (\<forall>a. le_method (AdditiveExpression_while this a) (AdditiveExpression_while this' a)) \<and>
      le_method (MultiplicativeExpression this) (MultiplicativeExpression this') \<and>
      (\<forall>a. le_method (MultiplicativeExpression_while this a) (MultiplicativeExpression_while this' a)) \<and>
      le_method (UnaryExpression this) (UnaryExpression this') \<and>
      le_method (LeftHandSideExpression this) (LeftHandSideExpression this') \<and>
      le_method (CallMemberExpression this) (CallMemberExpression this') \<and>
      (\<forall>a. le_method (CallExpression this a) (CallExpression this' a)) \<and>
      le_method (Arguments this) (Arguments this') \<and>
      le_method (ArgumentList this) (ArgumentList this') \<and>
      (\<forall>a. le_method (ArgumentList_while this a) (ArgumentList_while this' a)) \<and>
      le_method (MemberExpression this) (MemberExpression this') \<and>
      (\<forall>a. le_method (MemberExpression_while this a) (MemberExpression_while this' a)) \<and>
      le_method (PrimaryExpression this) (PrimaryExpression this') \<and>
      le_method (NewExpression this) (NewExpression this') \<and>
      le_method (ParenthesizedExpression this) (ParenthesizedExpression this'))"

lemma le_methodsD:
  assumes "le_methods this this'"
  shows "le_method (StatementList this a0) (StatementList this' a0)"
    and "le_method (StatementList_while this a1 b1) (StatementList_while this' a1 b1)"
    and "le_method (Statement this) (Statement this')"
    and "le_method (IfStatement this) (IfStatement this')"
    and "le_method (FunctionDeclaration this) (FunctionDeclaration this')"
    and "le_method (FormalParameterList this) (FormalParameterList this')"
    and "le_method (FormalParameterList_while this a6) (FormalParameterList_while this' a6)"
    and "le_method (ReturnStatement this) (ReturnStatement this')"
    and "le_method (ClassDeclaration this) (ClassDeclaration this')"
    and "le_method (IterationStatement this) (IterationStatement this')"
    and "le_method (WhileStatement this) (WhileStatement this')"
    and "le_method (DoStatement this) (DoStatement this')"
    and "le_method (ForStatement this) (ForStatement this')"
    and "le_method (ForStatementInit this) (ForStatementInit this')"
    and "le_method (VariableStatementInit this) (VariableStatementInit this')"
    and "le_method (VariableStatement this) (VariableStatement this')"
    and "le_method (VariableDeclarationList this) (VariableDeclarationList this')"
    and "le_method (VariableDeclarationList_while this a17) (VariableDeclarationList_while this' a17)"
    and "le_method (VariableDeclaration this) (VariableDeclaration this')"
    and "le_method (VariableInitializer this) (VariableInitializer this')"
    and "le_method (ExpressionStatement this) (ExpressionStatement this')"
    and "le_method (BlockStatement this) (BlockStatement this')"
    and "le_method (Expression this) (Expression this')"
    and "le_method (AssignmentExpression this) (AssignmentExpression this')"
    and "le_method (LogicalORExpression this) (LogicalORExpression this')"
    and "le_method (LogicalORExpression_while this a25) (LogicalORExpression_while this' a25)"
    and "le_method (LogicalANDExpression this) (LogicalANDExpression this')"
    and "le_method (LogicalANDExpression_while this a27) (LogicalANDExpression_while this' a27)"
    and "le_method (EqualityExpression this) (EqualityExpression this')"
    and "le_method (EqualityExpression_while this a29) (EqualityExpression_while this' a29)"
    and "le_method (RelationalExpression this) (RelationalExpression this')"
    and "le_method (RelationalExpression_while this a31) (RelationalExpression_while this' a31)"
    and "le_method (AdditiveExpression this) (AdditiveExpression this')"
    and "le_method (AdditiveExpression_while this a33) (AdditiveExpression_while this' a33)"
    and "le_method (MultiplicativeExpression this) (MultiplicativeExpression this')"
    and "le_method (MultiplicativeExpression_while this a35) (MultiplicativeExpression_while this' a35)"
    and "le_method (UnaryExpression this) (UnaryExpression this')"
    and "le_method (LeftHandSideExpression this) (LeftHandSideExpression this')"
    and "le_method (CallMemberExpression this) (CallMemberExpression this')"
    and "le_method (CallExpression this a39) (CallExpression this' a39)"
    and "le_method (Arguments this) (Arguments this')"
    and "le_method (ArgumentList this) (ArgumentList this')"
    and "le_method (ArgumentList_while this a42) (ArgumentList_while this' a42)"
    and "le_method (MemberExpression this) (MemberExpression this')"
    and "le_method (MemberExpression_while this a44) (MemberExpression_while this' a44)"
    and "le_method (PrimaryExpression this) (PrimaryExpression this')"
    and "le_method (NewExpression this) (NewExpression this')"
    and "le_method (ParenthesizedExpression this) (ParenthesizedExpression this')"
  using assms by (simp_all add: le_methods_def)

lemma le_method_refl: "le_method m m"
  by (simp add: le_method_def)

lemma le_method_out_of_fuel: "le_method out_of_fuel m"
  by (simp add: le_method_def out_of_fuel_def)

lemma le_method_bind:
  "le_method m m' \<Longrightarrow> (\<And>x. le_method (f x) (f' x)) \<Longrightarrow> le_method (bind m f) (bind m' f')"
  by (auto simp: le_method_def bind_def split: option.splits sum.splits)

lemma le_method_if:
  "(c \<Longrightarrow> le_method a a') \<Longrightarrow> (\<not> c \<Longrightarrow> le_method b b') \<Longrightarrow>
     le_method (if c then a else b) (if c then a' else b')"
  by simp

lemma le_method_case_option:
  "(x = None \<Longrightarrow> le_method a a') \<Longrightarrow> (\<And>y. x = Some y \<Longrightarrow> le_method (b y) (b' y)) \<Longrightarrow>
     le_method (case x of None \<Rightarrow> a | Some y \<Rightarrow> b y) (case x of None \<Rightarrow> a' | Some y \<Rightarrow> b' y)"
  by (cases x) simp_all

lemmas le_method_intros = le_method_bind le_method_if le_method_case_option le_method_refl

lemma StatementList_body_mono:
  "le_methods this this' \<Longrightarrow> le_method (StatementList_body this a) (StatementList_body this' a)"
  unfolding StatementList_body_def by (intro le_method_intros le_methodsD)

lemma StatementList_while_body_mono:
  "le_methods this this' \<Longrightarrow> le_method (StatementList_while_body this a b) (StatementList_while_body this' a b)"
  unfolding StatementList_while_body_def by (intro le_method_intros le_methodsD)

lemma Statement_body_mono:
  "le_methods this this' \<Longrightarrow> le_method (Statement_body this) (Statement_body this')"
  unfolding Statement_body_def by (intro le_method_intros le_methodsD)

lemma IfStatement_body_mono:
  "le_methods this this' \<Longrightarrow> le_method (IfStatement_body this) (IfStatement_body this')"
  unfolding IfStatement_body_def by (intro le_method_intros le_methodsD)

lemma FunctionDeclaration_body_mono:
  "le_methods this this' \<Longrightarrow> le_method (FunctionDeclaration_body this) (FunctionDeclaration_body this')"
  unfolding FunctionDeclaration_body_def by (intro le_method_intros le_methodsD)

lemma FormalParameterList_body_mono:
  "le_methods this this' \<Longrightarrow> le_method (FormalParameterList_body this) (FormalParameterList_body this')"
  unfolding FormalParameterList_body_def by (intro le_method_intros le_methodsD)

lemma FormalParameterList_while_body_mono:
  "le_methods this this' \<Longrightarrow> le_method (FormalParameterList_while_body this a) (FormalParameterList_while_body this' a)"
  unfolding FormalParameterList_while_body_def by (intro le_method_intros le_methodsD)

lemma ReturnStatement_body_mono:
  "le_methods this this' \<Longrightarrow> le_method (ReturnStatement_body this) (ReturnStatement_body this')"
  unfolding ReturnStatement_body_def by (intro le_method_intros le_methodsD)

lemma ClassDeclaration_body_mono:
  "le_methods this this' \<Longrightarrow> le_method (ClassDeclaration_body this) (ClassDeclaration_body this')"
  unfolding ClassDeclaration_body_def by (intro le_method_intros le_methodsD)

lemma IterationStatement_body_mono:
  "le_methods this this' \<Longrightarrow> le_method (IterationStatement_body this) (IterationStatement_body this')"
  unfolding IterationStatement_body_def by (intro le_method_intros le_methodsD)

lemma WhileStatement_body_mono:
  "le_methods this this' \<Longrightarrow> le_method (WhileStatement_body this) (WhileStatement_body this')"
  unfolding WhileStatement_body_def by (intro le_method_intros le_methodsD)

lemma DoStatement_body_mono:
  "le_methods this this' \<Longrightarrow> le_method (DoStatement_body this) (DoStatement_body this')"
  unfolding DoStatement_body_def by (intro le_method_intros le_methodsD)

lemma ForStatement_body_mono:
  "le_methods this this' \<Longrightarrow> le_method (ForStatement_body this) (ForStatement_body this')"
  unfolding ForStatement_body_def by (intro le_method_intros le_methodsD)

lemma ForStatementInit_body_mono:
  "le_methods this this' \<Longrightarrow> le_method (ForStatementInit_body this) (ForStatementInit_body this')"
  unfolding ForStatementInit_body_def by (intro le_method_intros le_methodsD)

lemma VariableStatementInit_body_mono:
  "le_methods this this' \<Longrightarrow> le_method (VariableStatementInit_body this) (VariableStatementInit_body this')"
  unfolding VariableStatementInit_body_def by (intro le_method_intros le_methodsD)

lemma VariableStatement_body_mono:
  "le_methods this this' \<Longrightarrow> le_method (VariableStatement_body this) (VariableStatement_body this')"
  unfolding VariableStatement_body_def by (intro le_method_intros le_methodsD)

lemma VariableDeclarationList_body_mono:
  "le_methods this this' \<Longrightarrow> le_method (VariableDeclarationList_body this) (VariableDeclarationList_body this')"
  unfolding VariableDeclarationList_body_def by (intro le_method_intros le_methodsD)

lemma VariableDeclarationList_while_body_mono:
  "le_methods this this' \<Longrightarrow> le_method (VariableDeclarationList_while_body this a) (VariableDeclarationList_while_body this' a)"
  unfolding VariableDeclarationList_while_body_def by (intro le_method_intros le_methodsD)

lemma VariableDeclaration_body_mono:
  "le_methods this this' \<Longrightarrow> le_method (VariableDeclaration_body this) (VariableDeclaration_body this')"
  unfolding VariableDeclaration_body_def by (intro le_method_intros le_methodsD)

lemma VariableInitializer_body_mono:
  "le_methods this this' \<Longrightarrow> le_method (VariableInitializer_body this) (VariableInitializer_body this')"
  unfolding VariableInitializer_body_def by (intro le_method_intros le_methodsD)

lemma ExpressionStatement_body_mono:
  "le_methods this this' \<Longrightarrow> le_method (ExpressionStatement_body this) (ExpressionStatement_body this')"
  unfolding ExpressionStatement_body_def by (intro le_method_intros le_methodsD)

lemma BlockStatement_body_mono:
  "le_methods this this' \<Longrightarrow> le_method (BlockStatement_body this) (BlockStatement_body this')"
  unfolding BlockStatement_body_def by (intro le_method_intros le_methodsD)

lemma Expression_body_mono:
  "le_methods this this' \<Longrightarrow> le_method (Expression_body this) (Expression_body this')"
  unfolding Expression_body_def by (intro le_method_intros le_methodsD)

lemma AssignmentExpression_body_mono:
  "le_methods this this' \<Longrightarrow> le_method (AssignmentExpression_body this) (AssignmentExpression_body this')"
  unfolding AssignmentExpression_body_def by (intro le_method_intros le_methodsD)

lemma LogicalORExpression_body_mono:
  "le_methods this this' \<Longrightarrow> le_method (LogicalORExpression_body this) (LogicalORExpression_body this')"
  unfolding LogicalORExpression_body_def by (intro le_method_intros le_methodsD)

lemma LogicalORExpression_while_body_mono:
  "le_methods this this' \<Longrightarrow> le_method (LogicalORExpression_while_body this a) (LogicalORExpression_while_body this' a)"
  unfolding LogicalORExpression_while_body_def by (intro le_method_intros le_methodsD)

lemma LogicalANDExpression_body_mono:
  "le_methods this this' \<Longrightarrow> le_method (LogicalANDExpression_body this) (LogicalANDExpression_body this')"
  unfolding LogicalANDExpression_body_def by (intro le_method_intros le_methodsD)

lemma LogicalANDExpression_while_body_mono:
  "le_methods this this' \<Longrightarrow> le_method (LogicalANDExpression_while_body this a) (LogicalANDExpression_while_body this' a)"
  unfolding LogicalANDExpression_while_body_def by (intro le_method_intros le_methodsD)

lemma EqualityExpression_body_mono:
  "le_methods this this' \<Longrightarrow> le_method (EqualityExpression_body this) (EqualityExpression_body this')"
  unfolding EqualityExpression_body_def by (intro le_method_intros le_methodsD)

lemma EqualityExpression_while_body_mono:
  "le_methods this this' \<Longrightarrow> le_method (EqualityExpression_while_body this a) (EqualityExpression_while_body this' a)"
  unfolding EqualityExpression_while_body_def by (intro le_method_intros le_methodsD)

lemma RelationalExpression_body_mono:
  "le_methods this this' \<Longrightarrow> le_method (RelationalExpression_body this) (RelationalExpression_body this')"
  unfolding RelationalExpression_body_def by (intro le_method_intros le_methodsD)

lemma RelationalExpression_while_body_mono:
  "le_methods this this' \<Longrightarrow> le_method (RelationalExpression_while_body this a) (RelationalExpression_while_body this' a)"
  unfolding RelationalExpression_while_body_def by (intro le_method_intros le_methodsD)

lemma AdditiveExpression_body_mono:
  "le_methods this this' \<Longrightarrow> le_method (AdditiveExpression_body this) (AdditiveExpression_body this')"
  unfolding AdditiveExpression_body_def by (intro le_method_intros le_methodsD)

lemma AdditiveExpression_while_body_mono:
  "le_methods this this' \<Longrightarrow> le_method (AdditiveExpression_while_body this a) (AdditiveExpression_while_body this' a)"
  unfolding AdditiveExpression_while_body_def by (intro le_method_intros le_methodsD)

lemma MultiplicativeExpression_body_mono:
  "le_methods this this' \<Longrightarrow> le_method (MultiplicativeExpression_body this) (MultiplicativeExpression_body this')"
  unfolding MultiplicativeExpression_body_def by (intro le_method_intros le_methodsD)

lemma MultiplicativeExpression_while_body_mono:
  "le_methods this this' \<Longrightarrow> le_method (MultiplicativeExpression_while_body this a) (MultiplicativeExpression_while_body this' a)"
  unfolding MultiplicativeExpression_while_body_def by (intro le_method_intros le_methodsD)

lemma UnaryExpression_body_mono:
  "le_methods this this' \<Longrightarrow> le_method (UnaryExpression_body this) (UnaryExpression_body this')"
  unfolding UnaryExpression_body_def by (intro le_method_intros le_methodsD)

lemma LeftHandSideExpression_body_mono:
  "le_methods this this' \<Longrightarrow> le_method (LeftHandSideExpression_body this) (LeftHandSideExpression_body this')"
  unfolding LeftHandSideExpression_body_def by (intro le_method_intros le_methodsD)

lemma CallMemberExpression_body_mono:
  "le_methods this this' \<Longrightarrow> le_method (CallMemberExpression_body this) (CallMemberExpression_body this')"
  unfolding CallMemberExpression_body_def by (intro le_method_intros le_methodsD)

lemma CallExpression_body_mono:
  "le_methods this this' \<Longrightarrow> le_method (CallExpression_body this a) (CallExpression_body this' a)"
  unfolding CallExpression_body_def by (intro le_method_intros le_methodsD)

lemma Arguments_body_mono:
  "le_methods this this' \<Longrightarrow> le_method (Arguments_body this) (Arguments_body this')"
  unfolding Arguments_body_def by (intro le_method_intros le_methodsD)

lemma ArgumentList_body_mono:
  "le_methods this this' \<Longrightarrow> le_method (ArgumentList_body this) (ArgumentList_body this')"
  unfolding ArgumentList_body_def by (intro le_method_intros le_methodsD)

lemma ArgumentList_while_body_mono:
  "le_methods this this' \<Longrightarrow> le_method (ArgumentList_while_body this a) (ArgumentList_while_body this' a)"
  unfolding ArgumentList_while_body_def by (intro le_method_intros le_methodsD)

lemma MemberExpression_body_mono:
  "le_methods this this' \<Longrightarrow> le_method (MemberExpression_body this) (MemberExpression_body this')"
  unfolding MemberExpression_body_def by (intro le_method_intros le_methodsD)

lemma MemberExpression_while_body_mono:
  "le_methods this this' \<Longrightarrow> le_method (MemberExpression_while_body this a) (MemberExpression_while_body this' a)"
  unfolding MemberExpression_while_body_def by (intro le_method_intros le_methodsD)

lemma PrimaryExpression_body_mono:
  "le_methods this this' \<Longrightarrow> le_method (PrimaryExpression_body this) (PrimaryExpression_body this')"
  unfolding PrimaryExpression_body_def by (intro le_method_intros le_methodsD)

lemma NewExpression_body_mono:
  "le_methods this this' \<Longrightarrow> le_method (NewExpression_body this) (NewExpression_body this')"
  unfolding NewExpression_body_def by (intro le_method_intros le_methodsD)

lemma ParenthesizedExpression_body_mono:
  "le_methods this this' \<Longrightarrow> le_method (ParenthesizedExpression_body this) (ParenthesizedExpression_body this')"
  unfolding ParenthesizedExpression_body_def by (intro le_method_intros le_methodsD)

lemmas body_mono =
  StatementList_body_mono
  StatementList_while_body_mono
  Statement_body_mono
  IfStatement_body_mono
  FunctionDeclaration_body_mono
  FormalParameterList_body_mono
  FormalParameterList_while_body_mono
  ReturnStatement_body_mono
  ClassDeclaration_body_mono
  IterationStatement_body_mono
  WhileStatement_body_mono
  DoStatement_body_mono
  ForStatement_body_mono
  ForStatementInit_body_mono
  VariableStatementInit_body_mono
  VariableStatement_body_mono
  VariableDeclarationList_body_mono
  VariableDeclarationList_while_body_mono
  VariableDeclaration_body_mono
  VariableInitializer_body_mono
  ExpressionStatement_body_mono
  BlockStatement_body_mono
  Expression_body_mono
  AssignmentExpression_body_mono
  LogicalORExpression_body_mono
  LogicalORExpression_while_body_mono
  LogicalANDExpression_body_mono
  LogicalANDExpression_while_body_mono
  EqualityExpression_body_mono
  EqualityExpression_while_body_mono
  RelationalExpression_body_mono
  RelationalExpression_while_body_mono
  AdditiveExpression_body_mono
  AdditiveExpression_while_body_mono
  MultiplicativeExpression_body_mono
  MultiplicativeExpression_while_body_mono
  UnaryExpression_body_mono
  LeftHandSideExpression_body_mono
  CallMemberExpression_body_mono
  CallExpression_body_mono
  Arguments_body_mono
  ArgumentList_body_mono
  ArgumentList_while_body_mono
  MemberExpression_body_mono
  MemberExpression_while_body_mono
  PrimaryExpression_body_mono
  NewExpression_body_mono
  ParenthesizedExpression_body_mono

lemma Parser_le_Suc: "le_methods (Parser n) (Parser (Suc n))"
proof (induction n)
  case 0
  show ?case
    unfolding le_methods_def Parser_0 by (intro conjI allI le_method_out_of_fuel)
next
  case (Suc n)
  show ?case
    unfolding le_methods_def Parser_Suc by (intro conjI allI body_mono Suc)
qed

lemma le_methods_refl: "le_methods this this"
  by (simp add: le_methods_def le_method_refl)

lemma le_method_trans: "le_method a b \<Longrightarrow> le_method b c \<Longrightarrow> le_method a c"
  by (simp add: le_method_def)

lemma le_methods_trans:
  assumes "le_methods a b" and "le_methods b c"
  shows "le_methods a c"
  unfolding le_methods_def
  by (intro conjI allI;
      rule le_method_trans, rule le_methodsD [OF assms(1)], rule le_methodsD [OF assms(2)])

lemma Parser_le_add: "le_methods (Parser n) (Parser (n + k))"
proof (induction k)
  case 0
  show ?case by (simp add: le_methods_refl)
next
  case (Suc k)
  then show ?case
    using Parser_le_Suc [of "n + k"] by (auto intro: le_methods_trans)
qed

lemma Program_mono: "le_methods this this' \<Longrightarrow> le_method (Program this) (Program this')"
  unfolding Program_def by (intro le_method_intros le_methodsD)

text \<open>An outcome of \<^verbatim>\<open>parse\<close> within a depth bound is its outcome within every larger one.\<close>

lemma parse_add: "parse n string = Some r \<Longrightarrow> parse (n + k) string = Some r"
proof -
  assume r: "parse n string = Some r"
  have le: "le_method (Program (Parser n)) (Program (Parser (n + k)))"
    by (rule Program_mono) (rule Parser_le_add)
  show ?thesis
  proof (cases "getNextToken (init string)")
    case (Pair res t)
    show ?thesis
    proof (cases res)
      case (Inl e)
      with Pair r show ?thesis
        by (simp add: parse_def)
    next
      case (Inr la)
      let ?p = "\<lparr>p_string = string, p_tokenizer = t, p_lookahead = la\<rparr>"
      from r Pair Inr obtain out where out: "Program (Parser n) ?p = Some out"
        by (auto simp: parse_def split: option.splits)
      with le have "Program (Parser (n + k)) ?p = Some out"
        by (simp add: le_method_def)
      with out r Pair Inr show ?thesis
        by (simp add: parse_def)
    qed
  qed
qed

subsection \<open>Running the parser on a text\<close>

text \<open>The equations by which the simplifier runs the parser and the tokenizer on a given
  text, and the outcomes of \<^verbatim>\<open>parse\<close> within the depth bound 30 on the texts of the
  properties below.\<close>

lemmas run_simps = Parser_Suc Parser_numeral body_simps helper_simps
  bind_def return_def throw_def out_of_fuel_def lookahead_def lookahead_type_def eat_def quoted_def
  checkValidAssignmentTarget_def isAssignmentOperator_def isLiteral_def js_prop_def Number_def
  decimal_def digit_value_def

lemmas token_simps = Let_def getNextToken.simps hasMoreTokens_def Spec_def match_def
  rx_lit_def rx_class_def rx_class_lit_def rx_class_opt_eq_def rx_plus_def rx_keyword_def
  rx_line_comment_def rx_block_comment_def rx_quoted_def word_boundary_def
  is_space_def is_digit_def is_word_def is_line_terminator_def

lemmas parse_simps = parse_def init_def run_simps token_simps

lemma parse_empty: "parse 30 '''' = Some (Inl TypeError)"
  by (simp add: parse_simps)

lemma parse_a: "parse 30 ''a'' = Some (Inl TypeError)"
  by (simp add: parse_simps)

lemma parse_equality:
  "parse 30 ''a == b;'' =
     Some (Inr (JObj [(''type'', JStr ''Program''),
       (''body'', JArr [JObj [(''type'', JStr ''ExpressionStatement''),
          (''expression'',
           JObj [(''type'', JStr ''BinaryExpression''), (''operator'', JStr ''==''),
                 (''right'', JObj [(''type'', JStr ''Identifier''), (''name'', JStr ''b'')])])]])]))"
  by (simp add: parse_simps)

lemma parse_relational:
  "parse 30 ''a < b;'' =
     Some (Inr (JObj [(''type'', JStr ''Program''),
       (''body'', JArr [JObj [(''type'', JStr ''ExpressionStatement''),
          (''expression'',
           JObj [(''type'', JStr ''BinaryExpression''), (''operator'', JStr ''<''),
                 (''left'', JObj [(''type'', JStr ''Identifier''), (''name'', JStr ''a'')]),
                 (''right'', JObj [(''type'', JStr ''Identifier''), (''name'', JStr ''b'')])])]])]))"
  by (simp add: parse_simps)

lemma parse_subtraction:
  "parse 30 ''a - b - c;'' =
     Some (Inr (JObj [(''type'', JStr ''Program''),
       (''body'', JArr [JObj [(''type'', JStr ''ExpressionStatement''),
          (''expression'',
           JObj [(''type'', JStr ''BinaryExpression''), (''operator'', JStr ''-''),
                 (''left'',
                  JObj [(''type'', JStr ''BinaryExpression''), (''operator'', JStr ''-''),
                        (''left'', JObj [(''type'', JStr ''Identifier''), (''name'', JStr ''a'')]),
                        (''right'', JObj [(''type'', JStr ''Identifier''), (''name'', JStr ''b'')])]),
                 (''right'', JObj [(''type'', JStr ''Identifier''), (''name'', JStr ''c'')])])]])]))"
  by (simp add: parse_simps)

lemma parse_assignment:
  "parse 30 ''a = b = c;'' =
     Some (Inr (JObj [(''type'', JStr ''Program''),
       (''body'', JArr [JObj [(''type'', JStr ''ExpressionStatement''),
          (''expression'',
           JObj [(''type'', JStr ''AssignmentExpression''), (''operator'', JStr ''=''),
                 (''left'', JObj [(''type'', JStr ''Identifier''), (''name'', JStr ''a'')]),
                 (''right'',
                  JObj [(''type'', JStr ''AssignmentExpression''), (''operator'', JStr ''=''),
                        (''left'', JObj [(''type'', JStr ''Identifier''), (''name'', JStr ''b'')]),
                        (''right'', JObj [(''type'', JStr ''Identifier''), (''name'', JStr ''c'')])])])]])]))"
  by (simp add: parse_simps)

lemma parse_dangling_else:
  "parse 30 ''if (a) if (b) c(); else d();'' =
     Some (Inr (JObj [(''type'', JStr ''Program''),
       (''body'', JArr [
          JObj [(''type'', JStr ''IfStatement''),
                (''test'', JObj [(''type'', JStr ''Identifier''), (''name'', JStr ''a'')]),
                (''consequent'',
                 JObj [(''type'', JStr ''IfStatement''),
                       (''test'', JObj [(''type'', JStr ''Identifier''), (''name'', JStr ''b'')]),
                       (''consequent'',
                        JObj [(''type'', JStr ''ExpressionStatement''),
                              (''expression'',
                               JObj [(''type'', JStr ''CallExpression''),
                                     (''callee'', JObj [(''type'', JStr ''Identifier''), (''name'', JStr ''c'')]),
                                     (''arguments'', JArr [])])]),
                       (''alternate'',
                        JObj [(''type'', JStr ''ExpressionStatement''),
                              (''expression'',
                               JObj [(''type'', JStr ''CallExpression''),
                                     (''callee'', JObj [(''type'', JStr ''Identifier''), (''name'', JStr ''d'')]),
                                     (''arguments'', JArr [])])])]),
                (''alternate'', JNull)]])]))"
  by (simp add: parse_simps)

lemma parse_invalid_target:
  "parse 30 ''5 = 3;'' = Some (Inl (SyntaxError ''Invalid left-hand side in assignment expression''))"
  by (simp add: parse_simps)

subsection \<open>Errors of the tokenizer seen by the parser\<close>

lemma getNextToken_error: "getNextToken t = (Inl e, t') \<Longrightarrow> is_SyntaxError e"
proof (induction t rule: getNextToken.induct)
  case (1 t)
  show ?case
  proof (cases "hasMoreTokens t")
    case False
    with "1.prems" show ?thesis
      by (simp add: getNextToken.simps)
  next
    case True
    let ?s = "drop (tk_cursor t) (tk_string t)"
    obtain sc t1 where scan: "scan_rules Spec ?s t = (sc, t1)"
      by (cases "scan_rules Spec ?s t")
    show ?thesis
    proof (cases sc)
      case Skipped
      with scan True "1.prems" have "getNextToken t1 = (Inl e, t')"
        by (simp add: getNextToken.simps [of t])
      with True scan Skipped show ?thesis
        by (intro "1.IH" [of ?s sc t1]) simp_all
    next
      case (Found tok)
      with scan True "1.prems" show ?thesis
        by (simp add: getNextToken.simps [of t])
    next
      case NoRule
      with scan True "1.prems" show ?thesis
        by (auto simp: getNextToken.simps [of t])
    qed
  qed
qed

lemma eat_expected:
  assumes "p_lookahead p = Some tok" and "tok_type tok = ty"
  shows "(\<exists>e. eat ty p = Some (Inl e) \<and> is_SyntaxError e) \<or> (\<exists>p'. eat ty p = Some (Inr (tok, p')))"
proof (cases "getNextToken (p_tokenizer p)")
  case (Pair res t')
  show ?thesis
  proof (cases res)
    case (Inl e)
    with Pair have "is_SyntaxError e"
      by (auto dest: getNextToken_error)
    with Pair Inl assms show ?thesis
      by (simp add: eat_def)
  next
    case (Inr nxt)
    with Pair assms show ?thesis
      by (simp add: eat_def)
  qed
qed

lemma AssignmentOperator_expected:
  assumes "p_lookahead p = Some tok" and "isAssignmentOperator (tok_type tok)"
  shows "(\<exists>e. AssignmentOperator p = Some (Inl e) \<and> is_SyntaxError e)
         \<or> (\<exists>p'. AssignmentOperator p = Some (Inr (tok, p')))"
proof (cases "tok_type tok = ''SIMPLE_ASSIGN''")
  case True
  then have "AssignmentOperator p = eat ''SIMPLE_ASSIGN'' p"
    using assms(1) by (simp add: AssignmentOperator_def bind_def lookahead_type_def)
  with eat_expected [OF assms(1) True] show ?thesis
    by simp
next
  case False
  with assms(2) have ty: "tok_type tok = ''COMPLEX_ASSIGN''"
    by (simp add: isAssignmentOperator_def)
  from False have "AssignmentOperator p = eat ''COMPLEX_ASSIGN'' p"
    using assms(1) by (simp add: AssignmentOperator_def bind_def lookahead_type_def)
  with eat_expected [OF assms(1) ty] show ?thesis
    by simp
qed

lemma invalid_target_throws:
  assumes left: "LogicalORExpression this p = Some (Inr (left, p1))"
    and la: "p_lookahead p1 = Some tok"
    and opr: "isAssignmentOperator (tok_type tok)"
    and ty: "js_prop ''type'' left = Some (JStr ty)" "ty \<noteq> ''Identifier''" "ty \<noteq> ''MemberExpression''"
  shows "\<exists>e. AssignmentExpression_body this p = Some (Inl e) \<and> is_SyntaxError e"
proof -
  have "left \<noteq> JNull"
    using ty(1) by (auto simp: js_prop_def)
  with ty have chk: "checkValidAssignmentTarget left p2 =
      Some (Inl (SyntaxError ''Invalid left-hand side in assignment expression''))" for p2
    by (simp add: checkValidAssignmentTarget_def throw_def)
  have body: "AssignmentExpression_body this p =
      bind AssignmentOperator (\<lambda>operator.
      bind (checkValidAssignmentTarget left) (\<lambda>target.
      bind (AssignmentExpression this) (\<lambda>right.
      return (JObj [(''type'', JStr ''AssignmentExpression''), (''operator'', JStr (tok_value operator)),
                    (''left'', target), (''right'', right)])))) p1"
    using left la opr by (simp add: AssignmentExpression_body_def bind_def [of "LogicalORExpression this"]
        bind_def [of lookahead_type] lookahead_type_def)
  from AssignmentOperator_expected [OF la opr] show ?thesis
  proof
    assume "\<exists>e. AssignmentOperator p1 = Some (Inl e) \<and> is_SyntaxError e"
    then show ?thesis
      by (auto simp: body bind_def)
  next
    assume "\<exists>p'. AssignmentOperator p1 = Some (Inr (tok, p'))"
    then show ?thesis
      by (auto simp: body bind_def chk)
  qed
qed

text \<open>
  C1. The claim fails on the code. On the empty text, and on a text that ends right
  after an expression, \<^verbatim>\<open>parse\<close> neither returns a \<^verbatim>\<open>Program\<close> node nor throws a
  \<^verbatim>\<open>SyntaxError\<close>: reading \<^verbatim>\<open>this._lookahead.type\<close> of the \<^verbatim>\<open>null\<close> lookahead throws
  a \<^verbatim>\<open>TypeError\<close>, within every depth bound from 30 on.
\<close>

theorem parse_end_of_input_TypeError:
  "parse (30 + n) '''' = Some (Inl TypeError) \<and> parse (30 + n) ''a'' = Some (Inl TypeError)"
  using parse_add [OF parse_empty, of n] parse_add [OF parse_a, of n] by simp

text \<open>
  C2. The claim fails on the code. The node that \<^verbatim>\<open>EqualityExpression\<close> builds for
  \<^verbatim>\<open>a == b;\<close> has the properties \<^verbatim>\<open>type\<close>, \<^verbatim>\<open>operator\<close> and \<^verbatim>\<open>right\<close> and no
  \<^verbatim>\<open>left\<close>: the operand \<^verbatim>\<open>a\<close> is lost. The node that \<^verbatim>\<open>RelationalExpression\<close> builds
  for \<^verbatim>\<open>a < b;\<close> has it.
\<close>

theorem equality_node_without_left:
  "parse (30 + n) ''a == b;'' =
     Some (Inr (JObj [(''type'', JStr ''Program''),
       (''body'', JArr [JObj [(''type'', JStr ''ExpressionStatement''),
          (''expression'',
           JObj [(''type'', JStr ''BinaryExpression''), (''operator'', JStr ''==''),
                 (''right'', JObj [(''type'', JStr ''Identifier''), (''name'', JStr ''b'')])])]])])) \<and>
   parse (30 + n) ''a < b;'' =
     Some (Inr (JObj [(''type'', JStr ''Program''),
       (''body'', JArr [JObj [(''type'', JStr ''ExpressionStatement''),
          (''expression'',
           JObj [(''type'', JStr ''BinaryExpression''), (''operator'', JStr ''<''),
                 (''left'', JObj [(''type'', JStr ''Identifier''), (''name'', JStr ''a'')]),
                 (''right'', JObj [(''type'', JStr ''Identifier''), (''name'', JStr ''b'')])])]])]))"
  using parse_add [OF parse_equality, of n] parse_add [OF parse_relational, of n] by simp

text \<open>
  C3. Within every depth bound from 30 on, parsing \<^verbatim>\<open>a - b - c;\<close> gives the
  \<^verbatim>\<open>BinaryExpression\<close> of \<^verbatim>\<open>-\<close> whose left operand is the \<^verbatim>\<open>BinaryExpression\<close> of
  \<^verbatim>\<open>-\<close> on \<^verbatim>\<open>a\<close> and \<^verbatim>\<open>b\<close> and whose right operand is \<^verbatim>\<open>c\<close>, and parsing
  \<^verbatim>\<open>a = b = c;\<close> gives the \<^verbatim>\<open>AssignmentExpression\<close> of \<^verbatim>\<open>=\<close> whose left side is
  \<^verbatim>\<open>a\<close> and whose right side is the \<^verbatim>\<open>AssignmentExpression\<close> of \<^verbatim>\<open>=\<close> on \<^verbatim>\<open>b\<close>
  and \<^verbatim>\<open>c\<close>.
\<close>

theorem subtraction_left_assignment_right:
  "parse (30 + n) ''a - b - c;'' =
     Some (Inr (JObj [(''type'', JStr ''Program''),
       (''body'', JArr [JObj [(''type'', JStr ''ExpressionStatement''),
          (''expression'',
           JObj [(''type'', JStr ''BinaryExpression''), (''operator'', JStr ''-''),
                 (''left'',
                  JObj [(''type'', JStr ''BinaryExpression''), (''operator'', JStr ''-''),
                        (''left'', JObj [(''type'', JStr ''Identifier''), (''name'', JStr ''a'')]),
                        (''right'', JObj [(''type'', JStr ''Identifier''), (''name'', JStr ''b'')])]),
                 (''right'', JObj [(''type'', JStr ''Identifier''), (''name'', JStr ''c'')])])]])])) \<and>
   parse (30 + n) ''a = b = c;'' =
     Some (Inr (JObj [(''type'', JStr ''Program''),
       (''body'', JArr [JObj [(''type'', JStr ''ExpressionStatement''),
          (''expression'',
           JObj [(''type'', JStr ''AssignmentExpression''), (''operator'', JStr ''=''),
                 (''left'', JObj [(''type'', JStr ''Identifier''), (''name'', JStr ''a'')]),
                 (''right'',
                  JObj [(''type'', JStr ''AssignmentExpression''), (''operator'', JStr ''=''),
                        (''left'', JObj [(''type'', JStr ''Identifier''), (''name'', JStr ''b'')]),
                        (''right'', JObj [(''type'', JStr ''Identifier''), (''name'', JStr ''c'')])])])]])]))"
  using parse_add [OF parse_subtraction, of n] parse_add [OF parse_assignment, of n] by simp

text \<open>
  C5. Within every depth bound from 30 on, parsing \<^verbatim>\<open>5 = 3;\<close> throws the
  \<^verbatim>\<open>SyntaxError\<close> of the invalid assignment target and returns no node. In general, when
  \<^verbatim>\<open>LogicalORExpression\<close> has returned a node whose type is neither \<^verbatim>\<open>Identifier\<close> nor
  \<^verbatim>\<open>MemberExpression\<close> and the lookahead is an assignment operator,
  \<^verbatim>\<open>AssignmentExpression\<close> throws a \<^verbatim>\<open>SyntaxError\<close>.
\<close>

theorem invalid_assignment_target:
  "parse (30 + n) ''5 = 3;'' = Some (Inl (SyntaxError ''Invalid left-hand side in assignment expression'')) \<and>
   (\<forall>this p left p1 tok ty.
      LogicalORExpression this p = Some (Inr (left, p1)) \<longrightarrow>
      p_lookahead p1 = Some tok \<longrightarrow>
      isAssignmentOperator (tok_type tok) \<longrightarrow>
      js_prop ''type'' left = Some (JStr ty) \<longrightarrow>
      ty \<noteq> ''Identifier'' \<longrightarrow>
      ty \<noteq> ''MemberExpression'' \<longrightarrow>
      (\<exists>e. AssignmentExpression_body this p = Some (Inl e) \<and> is_SyntaxError e))"
  using parse_add [OF parse_invalid_target, of n] invalid_target_throws by blast

theorem invalid_assignment_target_witness:
  "LogicalORExpression (Parser 20)
     \<lparr>p_string = ''5 = 3;'', p_tokenizer = \<lparr>tk_string = ''5 = 3;'', tk_cursor = 1\<rparr>,
      p_lookahead = Some \<lparr>tok_type = ''NUMBER'', tok_value = ''5''\<rparr>\<rparr> =
     Some (Inr (JObj [(''type'', JStr ''NumericLiteral''), (''value'', JNum 5)],
       \<lparr>p_string = ''5 = 3;'', p_tokenizer = \<lparr>tk_string = ''5 = 3;'', tk_cursor = 3\<rparr>,
        p_lookahead = Some \<lparr>tok_type = ''SIMPLE_ASSIGN'', tok_value = ''=''\<rparr>\<rparr>)) \<and>
   isAssignmentOperator ''SIMPLE_ASSIGN'' \<and>
   js_prop ''type'' (JObj [(''type'', JStr ''NumericLiteral''), (''value'', JNum 5)]) = Some (JStr ''NumericLiteral'') \<and>
   (\<exists>e. AssignmentExpression_body (Parser 20)
          \<lparr>p_string = ''5 = 3;'', p_tokenizer = \<lparr>tk_string = ''5 = 3;'', tk_cursor = 1\<rparr>,
           p_lookahead = Some \<lparr>tok_type = ''NUMBER'', tok_value = ''5''\<rparr>\<rparr> = Some (Inl e)
        \<and> is_SyntaxError e)"
proof -
  let ?p = "\<lparr>p_string = ''5 = 3;'', p_tokenizer = \<lparr>tk_string = ''5 = 3;'', tk_cursor = 1\<rparr>,
      p_lookahead = Some \<lparr>tok_type = ''NUMBER'', tok_value = ''5''\<rparr>\<rparr>"
  let ?p1 = "\<lparr>p_string = ''5 = 3;'', p_tokenizer = \<lparr>tk_string = ''5 = 3;'', tk_cursor = 3\<rparr>,
        p_lookahead = Some \<lparr>tok_type = ''SIMPLE_ASSIGN'', tok_value = ''=''\<rparr>\<rparr>"
  let ?left = "JObj [(''type'', JStr ''NumericLiteral''), (''value'', JNum 5)]"
  have left: "LogicalORExpression (Parser 20) ?p = Some (Inr (?left, ?p1))"
    by (simp add: run_simps token_simps)
  have la: "p_lookahead ?p1 = Some \<lparr>tok_type = ''SIMPLE_ASSIGN'', tok_value = ''=''\<rparr>"
    by simp
  have opr: "isAssignmentOperator (tok_type \<lparr>tok_type = ''SIMPLE_ASSIGN'', tok_value = ''=''\<rparr>)"
    by (simp add: isAssignmentOperator_def)
  have ty: "js_prop ''type'' ?left = Some (JStr ''NumericLiteral'')"
    by (simp add: js_prop_def)
  have "\<exists>e. AssignmentExpression_body (Parser 20) ?p = Some (Inl e) \<and> is_SyntaxError e"
    using invalid_assignment_target [of 0, THEN conjunct2, rule_format, OF left la opr ty] by simp
  with left opr ty show ?thesis
    by simp
qed

subsection \<open>The dangling \<^verbatim>\<open>else\<close>\<close>

lemma p_lookahead_parser_at: "p_lookahead (parser_at s c la) = la"
  by (simp add: parser_at_def)

lemma eat_returns:
  "eat tokenType p = Some (Inr (tok, p')) \<Longrightarrow> p_lookahead p = Some tok \<and> tok_type tok = tokenType"
  by (auto simp: eat_def split: option.splits if_splits prod.splits sum.splits)

lemma IfStatement_after_consequent:
  assumes "eat ''if'' p = Some (Inr (t1, p1))"
    and "eat ''('' p1 = Some (Inr (t2, p2))"
    and "Expression this p2 = Some (Inr (test, p3))"
    and "eat '')'' p3 = Some (Inr (t3, p4))"
    and "Statement this p4 = Some (Inr (consequent, p5))"
  shows "IfStatement_body this p =
    (case p_lookahead p5 of
       None \<Rightarrow>
         Some (Inr (JObj [(''type'', JStr ''IfStatement''), (''test'', test),
                          (''consequent'', consequent), (''alternate'', JNull)], p5))
     | Some tok \<Rightarrow>
         if tok_type tok = ''else''
         then bind (eat ''else'') (\<lambda>_.
              bind (Statement this) (\<lambda>alternate.
              return (JObj [(''type'', JStr ''IfStatement''), (''test'', test),
                            (''consequent'', consequent), (''alternate'', alternate)]))) p5
         else Some (Inr (JObj [(''type'', JStr ''IfStatement''), (''test'', test),
                               (''consequent'', consequent), (''alternate'', JNull)], p5)))"
  using assms
  by (auto simp: IfStatement_body_def bind_def return_def lookahead_def
      split: option.splits sum.splits prod.splits)

lemma IfStatement_returns:
  assumes "IfStatement_body this p = Some (Inr (node, p'))"
  shows "\<exists>t1 p1 t2 p2 test p3 t3 p4 consequent p5.
      eat ''if'' p = Some (Inr (t1, p1)) \<and> eat ''('' p1 = Some (Inr (t2, p2)) \<and>
      Expression this p2 = Some (Inr (test, p3)) \<and> eat '')'' p3 = Some (Inr (t3, p4)) \<and>
      Statement this p4 = Some (Inr (consequent, p5))"
  using assms
  by (simp add: IfStatement_body_def bind_def [of "eat ''if''"] bind_def [of "eat ''(''"]
      bind_def [of "Expression this"] bind_def [of "eat '')''"] bind_def [of "Statement this"]
      split: option.splits sum.splits prod.splits)

lemma IfStatement_leaves_else:
  assumes ret: "IfStatement_body this p = Some (Inr (node, p'))"
    and la: "p_lookahead p' = Some tok" "tok_type tok = ''else''"
  shows "\<exists>p4 consequent p5 tok' p6 alternate.
      Statement this p4 = Some (Inr (consequent, p5)) \<and>
      js_prop ''consequent'' node = Some consequent \<and>
      p_lookahead p5 = Some tok' \<and> tok_type tok' = ''else'' \<and>
      eat ''else'' p5 = Some (Inr (tok', p6)) \<and>
      Statement this p6 = Some (Inr (alternate, p')) \<and>
      js_prop ''alternate'' node = Some alternate"
proof -
  from IfStatement_returns [OF ret] obtain t1 p1 t2 p2 test p3 t3 p4 consequent p5 where
    head: "eat ''if'' p = Some (Inr (t1, p1))" "eat ''('' p1 = Some (Inr (t2, p2))"
      "Expression this p2 = Some (Inr (test, p3))" "eat '')'' p3 = Some (Inr (t3, p4))"
      "Statement this p4 = Some (Inr (consequent, p5))"
    by blast
  note body = IfStatement_after_consequent [OF head]
  have "\<exists>tok'. p_lookahead p5 = Some tok' \<and> tok_type tok' = ''else''"
  proof (rule ccontr)
    assume "\<not> (\<exists>tok'. p_lookahead p5 = Some tok' \<and> tok_type tok' = ''else'')"
    with body ret have "p' = p5"
      by (auto split: option.splits if_splits)
    with la \<open>\<not> (\<exists>tok'. p_lookahead p5 = Some tok' \<and> tok_type tok' = ''else'')\<close> show False
      by simp
  qed
  then obtain tok' where tok': "p_lookahead p5 = Some tok'" "tok_type tok' = ''else''"
    by blast
  with body ret have taken: "bind (eat ''else'') (\<lambda>_.
      bind (Statement this) (\<lambda>alternate.
      return (JObj [(''type'', JStr ''IfStatement''), (''test'', test),
                    (''consequent'', consequent), (''alternate'', alternate)]))) p5 = Some (Inr (node, p'))"
    by simp
  then obtain tk p6 where eaten: "eat ''else'' p5 = Some (Inr (tk, p6))"
    by (auto simp: bind_def [of "eat ''else''"] split: option.splits sum.splits)
  with eat_returns [OF eaten] tok' have tk: "tk = tok'"
    by simp
  from taken eaten obtain alternate where alt: "Statement this p6 = Some (Inr (alternate, p'))"
    and node: "node = JObj [(''type'', JStr ''IfStatement''), (''test'', test),
                    (''consequent'', consequent), (''alternate'', alternate)]"
    by (auto simp: bind_def return_def split: option.splits sum.splits)
  from head(5) tok' eaten tk alt node show ?thesis
    by (auto simp: js_prop_def)
qed

text \<open>
  C4. Within every depth bound from 30 on, parsing \<^verbatim>\<open>if (a) if (b) c(); else d();\<close>
  gives an \<^verbatim>\<open>IfStatement\<close> whose alternate is \<^verbatim>\<open>null\<close> and whose consequent is the
  \<^verbatim>\<open>IfStatement\<close> on \<^verbatim>\<open>b\<close> with \<^verbatim>\<open>c();\<close> as consequent and \<^verbatim>\<open>d();\<close> as alternate.
  In general, for every parser (so at every depth of nesting), every test and every
  consequent: once a call of \<^verbatim>\<open>IfStatement\<close> has parsed \<^verbatim>\<open>if\<close>, the test in parentheses and
  the consequent, an \<^verbatim>\<open>else\<close> that is then the lookahead is consumed by that very call and
  the statement after it becomes its alternate; with any other lookahead, or none, the
  alternate is \<^verbatim>\<open>null\<close> and the call consumes nothing more. Hence a call of
  \<^verbatim>\<open>IfStatement\<close> that returns with \<^verbatim>\<open>else\<close> as the lookahead has taken an \<^verbatim>\<open>else\<close> of its
  own right after its consequent: no \<^verbatim>\<open>else\<close> passes an \<^verbatim>\<open>if\<close> that has none to reach an
  \<^verbatim>\<open>if\<close> around it.
\<close>

theorem else_binds_to_innermost_if:
  "parse (30 + n) ''if (a) if (b) c(); else d();'' =
     Some (Inr (JObj [(''type'', JStr ''Program''),
       (''body'', JArr [
          JObj [(''type'', JStr ''IfStatement''),
                (''test'', JObj [(''type'', JStr ''Identifier''), (''name'', JStr ''a'')]),
                (''consequent'',
                 JObj [(''type'', JStr ''IfStatement''),
                       (''test'', JObj [(''type'', JStr ''Identifier''), (''name'', JStr ''b'')]),
                       (''consequent'',
                        JObj [(''type'', JStr ''ExpressionStatement''),
                              (''expression'',
                               JObj [(''type'', JStr ''CallExpression''),
                                     (''callee'', JObj [(''type'', JStr ''Identifier''), (''name'', JStr ''c'')]),
                                     (''arguments'', JArr [])])]),
                       (''alternate'',
                        JObj [(''type'', JStr ''ExpressionStatement''),
                              (''expression'',
                               JObj [(''type'', JStr ''CallExpression''),
                                     (''callee'', JObj [(''type'', JStr ''Identifier''), (''name'', JStr ''d'')]),
                                     (''arguments'', JArr [])])])]),
                (''alternate'', JNull)]])])) \<and>
   (\<forall>this p t1 p1 t2 p2 test p3 t3 p4 consequent p5.
      eat ''if'' p = Some (Inr (t1, p1)) \<longrightarrow>
      eat ''('' p1 = Some (Inr (t2, p2)) \<longrightarrow>
      Expression this p2 = Some (Inr (test, p3)) \<longrightarrow>
      eat '')'' p3 = Some (Inr (t3, p4)) \<longrightarrow>
      Statement this p4 = Some (Inr (consequent, p5)) \<longrightarrow>
      IfStatement_body this p =
        (case p_lookahead p5 of
           None \<Rightarrow>
             Some (Inr (JObj [(''type'', JStr ''IfStatement''), (''test'', test),
                              (''consequent'', consequent), (''alternate'', JNull)], p5))
         | Some tok \<Rightarrow>
             if tok_type tok = ''else''
             then bind (eat ''else'') (\<lambda>_.
                  bind (Statement this) (\<lambda>alternate.
                  return (JObj [(''type'', JStr ''IfStatement''), (''test'', test),
                                (''consequent'', consequent), (''alternate'', alternate)]))) p5
             else Some (Inr (JObj [(''type'', JStr ''IfStatement''), (''test'', test),
                                   (''consequent'', consequent), (''alternate'', JNull)], p5)))) \<and>
   (\<forall>this p node p' tok.
      IfStatement_body this p = Some (Inr (node, p')) \<longrightarrow>
      p_lookahead p' = Some tok \<longrightarrow>
      tok_type tok = ''else'' \<longrightarrow>
      (\<exists>p4 consequent p5 tok' p6 alternate.
         Statement this p4 = Some (Inr (consequent, p5)) \<and>
         js_prop ''consequent'' node = Some consequent \<and>
         p_lookahead p5 = Some tok' \<and> tok_type tok' = ''else'' \<and>
         eat ''else'' p5 = Some (Inr (tok', p6)) \<and>
         Statement this p6 = Some (Inr (alternate, p')) \<and>
         js_prop ''alternate'' node = Some alternate))"
proof (intro conjI allI impI)
  show "parse (30 + n) ''if (a) if (b) c(); else d();'' =
     Some (Inr (JObj [(''type'', JStr ''Program''),
       (''body'', JArr [
          JObj [(''type'', JStr ''IfStatement''),
                (''test'', JObj [(''type'', JStr ''Identifier''), (''name'', JStr ''a'')]),
                (''consequent'',
                 JObj [(''type'', JStr ''IfStatement''),
                       (''test'', JObj [(''type'', JStr ''Identifier''), (''name'', JStr ''b'')]),
                       (''consequent'',
                        JObj [(''type'', JStr ''ExpressionStatement''),
                              (''expression'',
                               JObj [(''type'', JStr ''CallExpression''),
                                     (''callee'', JObj [(''type'', JStr ''Identifier''), (''name'', JStr ''c'')]),
                                     (''arguments'', JArr [])])]),
                       (''alternate'',
                        JObj [(''type'', JStr ''ExpressionStatement''),
                              (''expression'',
                               JObj [(''type'', JStr ''CallExpression''),
                                     (''callee'', JObj [(''type'', JStr ''Identifier''), (''name'', JStr ''d'')]),
                                     (''arguments'', JArr [])])])]),
                (''alternate'', JNull)]])]))"
    using parse_add [OF parse_dangling_else, of n] by simp
next
  fix this :: methods and p t1 p1 t2 p2 test p3 t3 p4 consequent p5
  assume "eat ''if'' p = Some (Inr (t1, p1))" "eat ''('' p1 = Some (Inr (t2, p2))"
    "Expression this p2 = Some (Inr (test, p3))" "eat '')'' p3 = Some (Inr (t3, p4))"
    "Statement this p4 = Some (Inr (consequent, p5))"
  then show "IfStatement_body this p =
        (case p_lookahead p5 of
           None \<Rightarrow>
             Some (Inr (JObj [(''type'', JStr ''IfStatement''), (''test'', test),
                              (''consequent'', consequent), (''alternate'', JNull)], p5))
         | Some tok \<Rightarrow>
             if tok_type tok = ''else''
             then bind (eat ''else'') (\<lambda>_.
                  bind (Statement this) (\<lambda>alternate.
                  return (JObj [(''type'', JStr ''IfStatement''), (''test'', test),
                                (''consequent'', consequent), (''alternate'', alternate)]))) p5
             else Some (Inr (JObj [(''type'', JStr ''IfStatement''), (''test'', test),
                                   (''consequent'', consequent), (''alternate'', JNull)], p5)))"
    by (rule IfStatement_after_consequent)
next
  fix this :: methods and p node p' tok
  assume "IfStatement_body this p = Some (Inr (node, p'))" "p_lookahead p' = Some tok"
    "tok_type tok = ''else''"
  then show "\<exists>p4 consequent p5 tok' p6 alternate.
         Statement this p4 = Some (Inr (consequent, p5)) \<and>
         js_prop ''consequent'' node = Some consequent \<and>
         p_lookahead p5 = Some tok' \<and> tok_type tok' = ''else'' \<and>
         eat ''else'' p5 = Some (Inr (tok', p6)) \<and>
         Statement this p6 = Some (Inr (alternate, p')) \<and>
         js_prop ''alternate'' node = Some alternate"
    by (rule IfStatement_leaves_else)
qed

text \<open>The inner \<^verbatim>\<open>if\<close> of \<^verbatim>\<open>if (a) if (b < 1) c(); else d();\<close>, whose test is not an
  identifier, takes the \<^verbatim>\<open>else\<close>; the \<^verbatim>\<open>if\<close> of \<^verbatim>\<open>if (b) c(); else d(); else\<close> returns with
  \<^verbatim>\<open>else\<close> as the lookahead, and has taken the \<^verbatim>\<open>else\<close> after \<^verbatim>\<open>c();\<close>.\<close>

theorem else_binds_to_innermost_if_witness:
  "eat ''if'' (parser_at ''if (a) if (b < 1) c(); else d();'' 9 (Some \<lparr>tok_type = ''if'', tok_value = ''if''\<rparr>)) =
     Some (Inr (\<lparr>tok_type = ''if'', tok_value = ''if''\<rparr>,
       parser_at ''if (a) if (b < 1) c(); else d();'' 11 (Some \<lparr>tok_type = ''('', tok_value = ''(''\<rparr>))) \<and>
   eat ''('' (parser_at ''if (a) if (b < 1) c(); else d();'' 11 (Some \<lparr>tok_type = ''('', tok_value = ''(''\<rparr>)) =
     Some (Inr (\<lparr>tok_type = ''('', tok_value = ''(''\<rparr>,
       parser_at ''if (a) if (b < 1) c(); else d();'' 12 (Some \<lparr>tok_type = ''IDENTIFIER'', tok_value = ''b''\<rparr>))) \<and>
   Expression (Parser 25)
       (parser_at ''if (a) if (b < 1) c(); else d();'' 12 (Some \<lparr>tok_type = ''IDENTIFIER'', tok_value = ''b''\<rparr>)) =
     Some (Inr (JObj [(''type'', JStr ''BinaryExpression''), (''operator'', JStr ''<''),
                      (''left'', JObj [(''type'', JStr ''Identifier''), (''name'', JStr ''b'')]),
                      (''right'', JObj [(''type'', JStr ''NumericLiteral''), (''value'', JNum 1)])],
       parser_at ''if (a) if (b < 1) c(); else d();'' 17 (Some \<lparr>tok_type = '')'', tok_value = '')''\<rparr>))) \<and>
   eat '')'' (parser_at ''if (a) if (b < 1) c(); else d();'' 17 (Some \<lparr>tok_type = '')'', tok_value = '')''\<rparr>)) =
     Some (Inr (\<lparr>tok_type = '')'', tok_value = '')''\<rparr>,
       parser_at ''if (a) if (b < 1) c(); else d();'' 19 (Some \<lparr>tok_type = ''IDENTIFIER'', tok_value = ''c''\<rparr>))) \<and>
   Statement (Parser 25)
       (parser_at ''if (a) if (b < 1) c(); else d();'' 19 (Some \<lparr>tok_type = ''IDENTIFIER'', tok_value = ''c''\<rparr>)) =
     Some (Inr (JObj [(''type'', JStr ''ExpressionStatement''),
                      (''expression'',
                       JObj [(''type'', JStr ''CallExpression''),
                             (''callee'', JObj [(''type'', JStr ''Identifier''), (''name'', JStr ''c'')]),
                             (''arguments'', JArr [])])],
       parser_at ''if (a) if (b < 1) c(); else d();'' 27 (Some \<lparr>tok_type = ''else'', tok_value = ''else''\<rparr>))) \<and>
   IfStatement_body (Parser 25)
       (parser_at ''if (a) if (b < 1) c(); else d();'' 9 (Some \<lparr>tok_type = ''if'', tok_value = ''if''\<rparr>)) =
     Some (Inr (JObj [(''type'', JStr ''IfStatement''),
                      (''test'',
                       JObj [(''type'', JStr ''BinaryExpression''), (''operator'', JStr ''<''),
                             (''left'', JObj [(''type'', JStr ''Identifier''), (''name'', JStr ''b'')]),
                             (''right'', JObj [(''type'', JStr ''NumericLiteral''), (''value'', JNum 1)])]),
                      (''consequent'',
                       JObj [(''type'', JStr ''ExpressionStatement''),
                             (''expression'',
                              JObj [(''type'', JStr ''CallExpression''),
                                    (''callee'', JObj [(''type'', JStr ''Identifier''), (''name'', JStr ''c'')]),
                                    (''arguments'', JArr [])])]),
                      (''alternate'',
                       JObj [(''type'', JStr ''ExpressionStatement''),
                             (''expression'',
                              JObj [(''type'', JStr ''CallExpression''),
                                    (''callee'', JObj [(''type'', JStr ''Identifier''), (''name'', JStr ''d'')]),
                                    (''arguments'', JArr [])])])],
       parser_at ''if (a) if (b < 1) c(); else d();'' 32 None)) \<and>
   IfStatement_body (Parser 25)
       (parser_at ''if (b) c(); else d(); else'' 2 (Some \<lparr>tok_type = ''if'', tok_value = ''if''\<rparr>)) =
     Some (Inr (JObj [(''type'', JStr ''IfStatement''),
                      (''test'', JObj [(''type'', JStr ''Identifier''), (''name'', JStr ''b'')]),
                      (''consequent'',
                       JObj [(''type'', JStr ''ExpressionStatement''),
                             (''expression'',
                              JObj [(''type'', JStr ''CallExpression''),
                                    (''callee'', JObj [(''type'', JStr ''Identifier''), (''name'', JStr ''c'')]),
                                    (''arguments'', JArr [])])]),
                      (''alternate'',
                       JObj [(''type'', JStr ''ExpressionStatement''),
                             (''expression'',
                              JObj [(''type'', JStr ''CallExpression''),
                                    (''callee'', JObj [(''type'', JStr ''Identifier''), (''name'', JStr ''d'')]),
                                    (''arguments'', JArr [])])])],
       parser_at ''if (b) c(); else d(); else'' 26 (Some \<lparr>tok_type = ''else'', tok_value = ''else''\<rparr>))) \<and>
   (\<exists>p4 consequent p5 tok' p6 alternate.
      Statement (Parser 25) p4 = Some (Inr (consequent, p5)) \<and>
      p_lookahead p5 = Some tok' \<and> tok_type tok' = ''else'' \<and>
      eat ''else'' p5 = Some (Inr (tok', p6)) \<and>
      Statement (Parser 25) p6 =
        Some (Inr (alternate,
          parser_at ''if (b) c(); else d(); else'' 26 (Some \<lparr>tok_type = ''else'', tok_value = ''else''\<rparr>))) \<and>
      alternate =
        JObj [(''type'', JStr ''ExpressionStatement''),
              (''expression'',
               JObj [(''type'', JStr ''CallExpression''),
                     (''callee'', JObj [(''type'', JStr ''Identifier''), (''name'', JStr ''d'')]),
                     (''arguments'', JArr [])])])"
proof -
  let ?s = "''if (a) if (b < 1) c(); else d();''"
  let ?if = "\<lparr>tok_type = ''if'', tok_value = ''if''\<rparr>"
  let ?else = "\<lparr>tok_type = ''else'', tok_value = ''else''\<rparr>"
  let ?test = "JObj [(''type'', JStr ''BinaryExpression''), (''operator'', JStr ''<''),
                      (''left'', JObj [(''type'', JStr ''Identifier''), (''name'', JStr ''b'')]),
                      (''right'', JObj [(''type'', JStr ''NumericLiteral''), (''value'', JNum 1)])]"
  let ?c = "JObj [(''type'', JStr ''ExpressionStatement''),
                      (''expression'',
                       JObj [(''type'', JStr ''CallExpression''),
                             (''callee'', JObj [(''type'', JStr ''Identifier''), (''name'', JStr ''c'')]),
                             (''arguments'', JArr [])])]"
  let ?d = "JObj [(''type'', JStr ''ExpressionStatement''),
                      (''expression'',
                       JObj [(''type'', JStr ''CallExpression''),
                             (''callee'', JObj [(''type'', JStr ''Identifier''), (''name'', JStr ''d'')]),
                             (''arguments'', JArr [])])]"
  have h1: "eat ''if'' (parser_at ?s 9 (Some ?if)) =
      Some (Inr (?if, parser_at ?s 11 (Some \<lparr>tok_type = ''('', tok_value = ''(''\<rparr>)))"
    by (simp add: parser_at_def eat_def token_simps)
  have h2: "eat ''('' (parser_at ?s 11 (Some \<lparr>tok_type = ''('', tok_value = ''(''\<rparr>)) =
      Some (Inr (\<lparr>tok_type = ''('', tok_value = ''(''\<rparr>,
        parser_at ?s 12 (Some \<lparr>tok_type = ''IDENTIFIER'', tok_value = ''b''\<rparr>)))"
    by (simp add: parser_at_def eat_def token_simps)
  have h3: "Expression (Parser 25) (parser_at ?s 12 (Some \<lparr>tok_type = ''IDENTIFIER'', tok_value = ''b''\<rparr>)) =
      Some (Inr (?test, parser_at ?s 17 (Some \<lparr>tok_type = '')'', tok_value = '')''\<rparr>)))"
    by (simp add: parser_at_def run_simps token_simps)
  have h4: "eat '')'' (parser_at ?s 17 (Some \<lparr>tok_type = '')'', tok_value = '')''\<rparr>)) =
      Some (Inr (\<lparr>tok_type = '')'', tok_value = '')''\<rparr>,
        parser_at ?s 19 (Some \<lparr>tok_type = ''IDENTIFIER'', tok_value = ''c''\<rparr>)))"
    by (simp add: parser_at_def eat_def token_simps)
  have h5: "Statement (Parser 25) (parser_at ?s 19 (Some \<lparr>tok_type = ''IDENTIFIER'', tok_value = ''c''\<rparr>)) =
      Some (Inr (?c, parser_at ?s 27 (Some ?else)))"
    by (simp add: parser_at_def run_simps token_simps)
  have rest: "bind (eat ''else'') (\<lambda>_.
      bind (Statement (Parser 25)) (\<lambda>alternate.
      return (JObj [(''type'', JStr ''IfStatement''), (''test'', ?test),
                    (''consequent'', ?c), (''alternate'', alternate)]))) (parser_at ?s 27 (Some ?else)) =
      Some (Inr (JObj [(''type'', JStr ''IfStatement''), (''test'', ?test),
                       (''consequent'', ?c), (''alternate'', ?d)], parser_at ?s 32 None))"
    by (simp add: parser_at_def run_simps token_simps)
  have "IfStatement_body (Parser 25) (parser_at ?s 9 (Some ?if)) =
      (case p_lookahead (parser_at ?s 27 (Some ?else)) of
         None \<Rightarrow>
           Some (Inr (JObj [(''type'', JStr ''IfStatement''), (''test'', ?test),
                            (''consequent'', ?c), (''alternate'', JNull)], parser_at ?s 27 (Some ?else)))
       | Some tok \<Rightarrow>
           if tok_type tok = ''else''
           then bind (eat ''else'') (\<lambda>_.
                bind (Statement (Parser 25)) (\<lambda>alternate.
                return (JObj [(''type'', JStr ''IfStatement''), (''test'', ?test),
                              (''consequent'', ?c), (''alternate'', alternate)]))) (parser_at ?s 27 (Some ?else))
           else Some (Inr (JObj [(''type'', JStr ''IfStatement''), (''test'', ?test),
                                 (''consequent'', ?c), (''alternate'', JNull)], parser_at ?s 27 (Some ?else))))"
    using else_binds_to_innermost_if [of 0, THEN conjunct2, THEN conjunct1, rule_format, OF h1 h2 h3 h4 h5] .
  also have "\<dots> = Some (Inr (JObj [(''type'', JStr ''IfStatement''), (''test'', ?test),
                       (''consequent'', ?c), (''alternate'', ?d)], parser_at ?s 32 None))"
    by (simp del: One_nat_def add: p_lookahead_parser_at rest)
  finally have inner: "IfStatement_body (Parser 25) (parser_at ?s 9 (Some ?if)) =
      Some (Inr (JObj [(''type'', JStr ''IfStatement''), (''test'', ?test),
                       (''consequent'', ?c), (''alternate'', ?d)], parser_at ?s 32 None))" .
  let ?s2 = "''if (b) c(); else d(); else''"
  let ?node = "JObj [(''type'', JStr ''IfStatement''),
                      (''test'', JObj [(''type'', JStr ''Identifier''), (''name'', JStr ''b'')]),
                      (''consequent'', ?c), (''alternate'', ?d)]"
  have ret: "IfStatement_body (Parser 25) (parser_at ?s2 2 (Some ?if)) =
      Some (Inr (?node, parser_at ?s2 26 (Some ?else)))"
    by (simp add: parser_at_def run_simps token_simps)
  have la: "p_lookahead (parser_at ?s2 26 (Some ?else)) = Some ?else" "tok_type ?else = ''else''"
    by (simp_all add: parser_at_def)
  from else_binds_to_innermost_if [of 0, THEN conjunct2, THEN conjunct2, rule_format, OF ret la]
  obtain p4 consequent p5 tok' p6 alternate where
    "Statement (Parser 25) p4 = Some (Inr (consequent, p5))"
    "p_lookahead p5 = Some tok'" "tok_type tok' = ''else''"
    "eat ''else'' p5 = Some (Inr (tok', p6))"
    "Statement (Parser 25) p6 = Some (Inr (alternate, parser_at ?s2 26 (Some ?else)))"
    "js_prop ''alternate'' ?node = Some alternate"
    by blast
  moreover from this have "alternate = ?d"
    by (simp add: js_prop_def)
  ultimately have taken: "\<exists>p4 consequent p5 tok' p6 alternate.
      Statement (Parser 25) p4 = Some (Inr (consequent, p5)) \<and>
      p_lookahead p5 = Some tok' \<and> tok_type tok' = ''else'' \<and>
      eat ''else'' p5 = Some (Inr (tok', p6)) \<and>
      Statement (Parser 25) p6 = Some (Inr (alternate, parser_at ?s2 26 (Some ?else))) \<and>
      alternate = ?d"
    by blast
  from h1 h2 h3 h4 h5 inner ret taken show ?thesis
    by (intro conjI)
qed


end
